theory Spec2Isabelle
  imports Complex_Main
begin

section \<open>Numbers, typed arrays and uniforms\<close>

text \<open>
  The simulation works on JavaScript numbers and \<^verbatim>\<open>Float32Array\<close> storage. They are
  modelled as \<^typ>\<open>real\<close>: arithmetic is exact, there is no rounding on a store and no NaN
  or infinity. Indices and counts are natural numbers (integers where the source can go
  below zero).

  A typed array is a list. A write outside the array is ignored by JavaScript, which is
  what \<^term>\<open>xs[i := v]\<close> does. A read outside yields \<^verbatim>\<open>undefined\<close> in JavaScript; the model
  reads with \<^term>\<open>xs ! i\<close> and every theorem about stored values states the array sizes
  that \<^verbatim>\<open>createStorageArrays\<close> establishes.
\<close>

text \<open>
  Uniforms are accessed in the source as \<^verbatim>\<open>Record<string, { value: any }>\<close>: a map from the
  uniform's name to its value cell, a number or a three-component vector.
\<close>

datatype uval = Num real | Vec3 real real real

type_synonym uniforms = "string \<Rightarrow> uval option"

definition num_value :: "uniforms \<Rightarrow> string \<Rightarrow> real" where
  "num_value u k = (case u k of Some (Num x) \<Rightarrow> x | _ \<Rightarrow> undefined)"

definition vec_x :: "uniforms \<Rightarrow> string \<Rightarrow> real" where
  "vec_x u k = (case u k of Some (Vec3 x y z) \<Rightarrow> x | _ \<Rightarrow> undefined)"

definition vec_y :: "uniforms \<Rightarrow> string \<Rightarrow> real" where
  "vec_y u k = (case u k of Some (Vec3 x y z) \<Rightarrow> y | _ \<Rightarrow> undefined)"

definition vec_z :: "uniforms \<Rightarrow> string \<Rightarrow> real" where
  "vec_z u k = (case u k of Some (Vec3 x y z) \<Rightarrow> z | _ \<Rightarrow> undefined)"


section \<open>Curve sampler (webgl-fallback/curve-sampler.ts)\<close>

text \<open>
  \<^verbatim>\<open>curveTexture.image\<close>: the pixel data, four floats (RGBA) per texel, and the width in
  texels.
\<close>

record DataTexture =
  image_data :: "real list"
  image_width :: int

record curve_sample =
  chan_r :: real
  chan_g :: real
  chan_b :: real
  chan_a :: real

text \<open>Read of the pixel array at an integer index computed by the sampler.\<close>

definition texel_at :: "real list \<Rightarrow> int \<Rightarrow> real" where
  "texel_at dat i = (if 0 \<le> i \<and> i < int (length dat) then dat ! nat i else undefined)"

definition sampleCurve :: "DataTexture \<Rightarrow> real \<Rightarrow> curve_sample" where
  "sampleCurve curveTexture progress =
     (let dat = image_data curveTexture;
          width = image_width curveTexture;
          t = max 0 (min 1 progress);
          texelPos = t * real_of_int (width - 1);
          idx0 = \<lfloor>texelPos\<rfloor>;
          idx1 = min (idx0 + 1) (width - 1);
          frac = texelPos - real_of_int idx0;
          base0 = idx0 * 4;
          base1 = idx1 * 4
      in \<lparr> chan_r = texel_at dat base0 * (1 - frac) + texel_at dat base1 * frac,
           chan_g = texel_at dat (base0 + 1) * (1 - frac) + texel_at dat (base1 + 1) * frac,
           chan_b = texel_at dat (base0 + 2) * (1 - frac) + texel_at dat (base1 + 2) * frac,
           chan_a = texel_at dat (base0 + 3) * (1 - frac) + texel_at dat (base1 + 3) * frac \<rparr>)"

text \<open>
  The sampling rule in the words of the specification: clamp, texel coordinate
  \<open>t * (w - 1)\<close>, lower index by floor, upper index capped at the last texel, linear
  interpolation of one channel \<open>c\<close> (0 to 3).
\<close>

definition curve_t :: "real \<Rightarrow> real" where
  "curve_t progress = (if progress < 0 then 0 else if 1 < progress then 1 else progress)"

definition curve_idx0 :: "int \<Rightarrow> real \<Rightarrow> int" where
  "curve_idx0 w progress = \<lfloor>curve_t progress * real_of_int (w - 1)\<rfloor>"

definition curve_idx1 :: "int \<Rightarrow> real \<Rightarrow> int" where
  "curve_idx1 w progress = min (curve_idx0 w progress + 1) (w - 1)"

definition curve_frac :: "int \<Rightarrow> real \<Rightarrow> real" where
  "curve_frac w progress =
     curve_t progress * real_of_int (w - 1) - real_of_int (curve_idx0 w progress)"

definition curve_lerp :: "DataTexture \<Rightarrow> real \<Rightarrow> int \<Rightarrow> real" where
  "curve_lerp tex progress c =
     (let w = image_width tex; f = curve_frac w progress
      in texel_at (image_data tex) (curve_idx0 w progress * 4 + c) * (1 - f)
         + texel_at (image_data tex) (curve_idx1 w progress * 4 + c) * f)"

definition texel :: "DataTexture \<Rightarrow> int \<Rightarrow> curve_sample" where
  "texel tex j =
     \<lparr> chan_r = texel_at (image_data tex) (j * 4),
       chan_g = texel_at (image_data tex) (j * 4 + 1),
       chan_b = texel_at (image_data tex) (j * 4 + 2),
       chan_a = texel_at (image_data tex) (j * 4 + 3) \<rparr>"

definition tex2 :: DataTexture where
  "tex2 = \<lparr> image_data = [1, 2, 3, 4, 5, 6, 7, 8], image_width = 2 \<rparr>"



section \<open>Particle storage (webgl-fallback/buffer-utils.ts, storage.ts)\<close>

text \<open>
  \<^verbatim>\<open>CPUStorageArrays\<close>: one flat array per attribute. Vector attributes take three
  consecutive entries per particle (index \<open>i * 3\<close>); the rotation and colour arrays are
  \<^verbatim>\<open>null\<close> unless the configuration needs them.
\<close>

record CPUStorageArrays =
  positions :: "real list"
  velocities :: "real list"
  lifetimes :: "real list"
  fadeRates :: "real list"
  particleSizes :: "real list"
  particleRotations :: "real list option"
  particleColorStarts :: "real list option"
  particleColorEnds :: "real list option"

text \<open>The sizes given to the arrays by \<^verbatim>\<open>createStorageArrays\<close> for \<open>n\<close> particles.\<close>

definition opt_length :: "real list option \<Rightarrow> nat \<Rightarrow> bool" where
  "opt_length xs n = (case xs of None \<Rightarrow> True | Some ys \<Rightarrow> length ys = n)"

definition storage_sized :: "CPUStorageArrays \<Rightarrow> nat \<Rightarrow> bool" where
  "storage_sized cpu n =
     (length (positions cpu) = 3 * n \<and> length (velocities cpu) = 3 * n
      \<and> length (lifetimes cpu) = n \<and> length (fadeRates cpu) = n
      \<and> length (particleSizes cpu) = n
      \<and> opt_length (particleRotations cpu) (3 * n)
      \<and> opt_length (particleColorStarts cpu) (3 * n)
      \<and> opt_length (particleColorEnds cpu) (3 * n))"

text \<open>One particle: the row of the parallel arrays at index \<open>i\<close>.\<close>

type_synonym vec3 = "real \<times> real \<times> real"

definition vec3_at :: "real list \<Rightarrow> nat \<Rightarrow> vec3" where
  "vec3_at xs i = (xs ! (i * 3), xs ! (i * 3 + 1), xs ! (i * 3 + 2))"

record particle =
  p_position :: vec3
  p_velocity :: vec3
  p_lifetime :: real
  p_fadeRate :: real
  p_size :: real
  p_rotation :: "vec3 option"
  p_colorStart :: "vec3 option"
  p_colorEnd :: "vec3 option"

definition particle_at :: "CPUStorageArrays \<Rightarrow> nat \<Rightarrow> particle" where
  "particle_at cpu i =
     \<lparr> p_position = vec3_at (positions cpu) i,
       p_velocity = vec3_at (velocities cpu) i,
       p_lifetime = lifetimes cpu ! i,
       p_fadeRate = fadeRates cpu ! i,
       p_size = particleSizes cpu ! i,
       p_rotation = map_option (\<lambda>xs. vec3_at xs i) (particleRotations cpu),
       p_colorStart = map_option (\<lambda>xs. vec3_at xs i) (particleColorStarts cpu),
       p_colorEnd = map_option (\<lambda>xs. vec3_at xs i) (particleColorEnds cpu) \<rparr>"


section \<open>Sequential update (webgl-fallback/cpu-update.ts, hash.ts)\<close>

text \<open>\<^verbatim>\<open>hash\<close>: the fractional part of a scaled sine.\<close>

definition hash :: "real \<Rightarrow> real" where
  "hash n = (let x = sin n * 43758.5453123 in x - real_of_int \<lfloor>x\<rfloor>)"

text \<open>
  \<^verbatim>\<open>Partial<ShaderFeatures>\<close>: a feature is switched off only by an explicit \<^verbatim>\<open>false\<close>; an
  absent field counts as enabled.
\<close>

record ShaderFeatures =
  f_turbulence :: "bool option"
  f_attractors :: "bool option"
  f_collision :: "bool option"
  f_rotation :: "bool option"

record attractor =
  att_px :: real
  att_py :: real
  att_pz :: real
  att_strength :: real
  att_radius :: real
  att_type :: real
  att_ax :: real
  att_ay :: real
  att_az :: real

text \<open>The values \<^verbatim>\<open>cpuUpdate\<close> reads from the uniforms once, before its loop.\<close>

record update_env =
  dt :: real
  gravityX :: real
  gravityY :: real
  gravityZ :: real
  sizeBasedGravity :: real
  velocityCurveEnabled :: bool
  frictionEasingType :: real
  frictionIntensityStart :: real
  frictionIntensityEnd :: real
  hasTurbulence :: bool
  turbIntensity :: real
  turbFreq :: real
  turbTime :: real
  collisionEnabled :: bool
  collisionPlaneY :: real
  collisionBounce :: real
  collisionFriction :: real
  collisionDie :: bool
  hasRotation :: bool
  rotSpeedMinX :: real
  rotSpeedMaxX :: real
  rotSpeedMinY :: real
  rotSpeedMaxY :: real
  rotSpeedMinZ :: real
  rotSpeedMaxZ :: real
  rotSpeedCurveEnabled :: bool
  attractors :: "attractor list"

text \<open>The decimal digit in the uniform names \<^verbatim>\<open>attractor${a}Pos\<close>; the loop keeps \<open>a < 4\<close>.\<close>

definition slot_digit :: "nat \<Rightarrow> string" where
  "slot_digit a = (if a = 0 then ''0'' else if a = 1 then ''1'' else if a = 2 then ''2'' else ''3'')"

definition read_attractor :: "uniforms \<Rightarrow> nat \<Rightarrow> attractor" where
  "read_attractor u a =
     \<lparr> att_px = vec_x u (''attractor'' @ slot_digit a @ ''Pos''),
       att_py = vec_y u (''attractor'' @ slot_digit a @ ''Pos''),
       att_pz = vec_z u (''attractor'' @ slot_digit a @ ''Pos''),
       att_strength = num_value u (''attractor'' @ slot_digit a @ ''Strength''),
       att_radius = num_value u (''attractor'' @ slot_digit a @ ''Radius''),
       att_type = num_value u (''attractor'' @ slot_digit a @ ''Type''),
       att_ax = vec_x u (''attractor'' @ slot_digit a @ ''Axis''),
       att_ay = vec_y u (''attractor'' @ slot_digit a @ ''Axis''),
       att_az = vec_z u (''attractor'' @ slot_digit a @ ''Axis'') \<rparr>"

definition read_env :: "uniforms \<Rightarrow> ShaderFeatures \<Rightarrow> CPUStorageArrays \<Rightarrow> update_env" where
  "read_env u features cpu =
     (let turb = (f_turbulence features \<noteq> Some False);
          hasAttractors = (f_attractors features \<noteq> Some False);
          attractorCount = (if hasAttractors then num_value u ''attractorCount'' else 0);
          hasCollision = (f_collision features \<noteq> Some False);
          rot = (f_rotation features \<noteq> Some False \<and> particleRotations cpu \<noteq> None)
      in \<lparr> dt = num_value u ''deltaTime'',
           gravityX = vec_x u ''gravity'',
           gravityY = vec_y u ''gravity'',
           gravityZ = vec_z u ''gravity'',
           sizeBasedGravity = num_value u ''sizeBasedGravity'',
           velocityCurveEnabled = (num_value u ''velocityCurveEnabled'' > 0.5),
           frictionEasingType = num_value u ''frictionEasingType'',
           frictionIntensityStart = num_value u ''frictionIntensityStart'',
           frictionIntensityEnd = num_value u ''frictionIntensityEnd'',
           hasTurbulence = turb,
           turbIntensity = (if turb then num_value u ''turbulenceIntensity'' else 0),
           turbFreq = (if turb then num_value u ''turbulenceFrequency'' else 0),
           turbTime = (if turb then num_value u ''turbulenceTime'' else 0),
           collisionEnabled = (if hasCollision then num_value u ''collisionEnabled'' > 0.5 else False),
           collisionPlaneY = (if hasCollision then num_value u ''collisionPlaneY'' else 0),
           collisionBounce = (if hasCollision then num_value u ''collisionBounce'' else 0),
           collisionFriction = (if hasCollision then num_value u ''collisionFriction'' else 0),
           collisionDie = (if hasCollision then num_value u ''collisionDie'' > 0.5 else False),
           hasRotation = rot,
           rotSpeedMinX = (if rot then num_value u ''rotationSpeedMinX'' else 0),
           rotSpeedMaxX = (if rot then num_value u ''rotationSpeedMaxX'' else 0),
           rotSpeedMinY = (if rot then num_value u ''rotationSpeedMinY'' else 0),
           rotSpeedMaxY = (if rot then num_value u ''rotationSpeedMaxY'' else 0),
           rotSpeedMinZ = (if rot then num_value u ''rotationSpeedMinZ'' else 0),
           rotSpeedMaxZ = (if rot then num_value u ''rotationSpeedMaxZ'' else 0),
           rotSpeedCurveEnabled = (if rot then num_value u ''rotationSpeedCurveEnabled'' > 0.5 else False),
           attractors = (if hasAttractors
                         then map (read_attractor u)
                                (takeWhile (\<lambda>a. real a < attractorCount) [0, 1, 2, 3])
                         else []) \<rparr>)"

text \<open>Gravity, with the size-based multiplier.\<close>

fun apply_gravity :: "update_env \<Rightarrow> real \<Rightarrow> vec3 \<Rightarrow> vec3" where
  "apply_gravity e particleSize (vx, vy, vz) =
     (let gravMult = 1 + particleSize * sizeBasedGravity e
      in (vx + gravityX e * dt e * gravMult,
          vy + gravityY e * dt e * gravMult,
          vz + gravityZ e * dt e * gravMult))"

text \<open>Velocity control: the velocity curve (B channel) or friction with easing.\<close>

definition speed_scale :: "update_env \<Rightarrow> DataTexture \<Rightarrow> real \<Rightarrow> real" where
  "speed_scale e curveTexture progress =
     (if velocityCurveEnabled e then chan_b (sampleCurve curveTexture progress)
      else
        let easedProgress =
              (if frictionEasingType e < 0.5 then progress
               else if frictionEasingType e < 1.5 then progress * progress
               else if frictionEasingType e < 2.5 then 1 - (1 - progress) * (1 - progress)
               else if progress < 0.5 then 2 * progress * progress
               else 1 - (- 2 * progress + 2) ^ 2 / 2);
            currentIntensity =
              frictionIntensityStart e
              + (frictionIntensityEnd e - frictionIntensityStart e) * easedProgress
        in 1 - currentIntensity * 0.9)"

text \<open>
  Turbulence. \<^verbatim>\<open>curlNoise\<close> (webgl-fallback/noise.ts) is not among the sources; it is a
  parameter of the model, a function of the sample point and the epsilon.
\<close>

type_synonym noise = "real \<Rightarrow> real \<Rightarrow> real \<Rightarrow> real \<Rightarrow> vec3"

fun apply_turbulence :: "noise \<Rightarrow> update_env \<Rightarrow> vec3 \<Rightarrow> vec3 \<Rightarrow> vec3" where
  "apply_turbulence curlNoise e (px, py, pz) (vx, vy, vz) =
     (if hasTurbulence e \<and> turbIntensity e > 0.001 then
        let nx = px * turbFreq e + turbTime e;
            ny = py * turbFreq e + turbTime e * 0.7;
            nz = pz * turbFreq e + turbTime e * 1.3
        in case curlNoise nx ny nz 0.01 of
             (cx, cy, cz) \<Rightarrow>
               (vx + cx * turbIntensity e * dt e,
                vy + cy * turbIntensity e * dt e,
                vz + cz * turbIntensity e * dt e)
      else (vx, vy, vz))"

text \<open>Attractors: the vector to the attractor, the falloff and the force of one attractor.\<close>

fun to_attractor :: "attractor \<Rightarrow> vec3 \<Rightarrow> vec3" where
  "to_attractor att (px, py, pz) = (att_px att - px, att_py att - py, att_pz att - pz)"

fun attractor_dist :: "vec3 \<Rightarrow> real" where
  "attractor_dist (toX, toY, toZ) = sqrt (toX * toX + toY * toY + toZ * toZ)"

definition attractor_falloff :: "attractor \<Rightarrow> real \<Rightarrow> real" where
  "attractor_falloff att distance =
     (let safeDist = max distance 0.01
      in if att_radius att > 0.001 then max 0 (1 - distance / att_radius att)
         else 1 / (safeDist * safeDist + 1))"

definition attractor_force :: "attractor \<Rightarrow> vec3 \<Rightarrow> vec3" where
  "attractor_force att p =
     (case to_attractor att p of
        (toX, toY, toZ) \<Rightarrow>
          let distance = attractor_dist (toX, toY, toZ);
              safeDist = max distance 0.01;
              dirX = toX / safeDist;
              dirY = toY / safeDist;
              dirZ = toZ / safeDist;
              falloff = attractor_falloff att distance
          in if att_type att < 0.5 then
               (dirX * att_strength att * falloff,
                dirY * att_strength att * falloff,
                dirZ * att_strength att * falloff)
             else
               let tangentX = att_ay att * toZ - att_az att * toY;
                   tangentY = att_az att * toX - att_ax att * toZ;
                   tangentZ = att_ax att * toY - att_ay att * toX;
                   tangentLen =
                     max (sqrt (tangentX * tangentX + tangentY * tangentY + tangentZ * tangentZ))
                       0.001
               in ((tangentX / tangentLen) * att_strength att * falloff,
                   (tangentY / tangentLen) * att_strength att * falloff,
                   (tangentZ / tangentLen) * att_strength att * falloff))"

text \<open>One pass of the attractor loop: skipped for a strength of at most 0.001 in magnitude.\<close>

fun apply_attractor :: "update_env \<Rightarrow> vec3 \<Rightarrow> vec3 \<Rightarrow> attractor \<Rightarrow> vec3" where
  "apply_attractor e p (vx, vy, vz) att =
     (if \<bar>att_strength att\<bar> \<le> 0.001 then (vx, vy, vz)
      else case attractor_force att p of
             (fx, fy, fz) \<Rightarrow> (vx + fx * dt e, vy + fy * dt e, vz + fz * dt e))"

fun integrate :: "update_env \<Rightarrow> real \<Rightarrow> vec3 \<Rightarrow> vec3 \<Rightarrow> vec3" where
  "integrate e speedScale (px, py, pz) (vx, vy, vz) =
     (px + vx * dt e * speedScale, py + vy * dt e * speedScale, pz + vz * dt e * speedScale)"

text \<open>
  The loop body of a live particle up to the collision test: the position after
  integration and the velocity after gravity, turbulence and attractors.
\<close>

definition pre_collision ::
  "noise \<Rightarrow> update_env \<Rightarrow> DataTexture \<Rightarrow> CPUStorageArrays \<Rightarrow> nat \<Rightarrow> vec3 \<times> vec3" where
  "pre_collision curlNoise e curveTexture cpu i =
     (let lifetime = lifetimes cpu ! i;
          p = vec3_at (positions cpu) i;
          v = vec3_at (velocities cpu) i;
          particleSize = particleSizes cpu ! i;
          v1 = apply_gravity e particleSize v;
          progress = 1 - lifetime;
          speedScale = speed_scale e curveTexture progress;
          v2 = apply_turbulence curlNoise e p v1;
          v3 = foldl (apply_attractor e p) v2 (attractors e)
      in (integrate e speedScale p v3, v3))"

text \<open>Rotation: only with the feature on and a rotation array present.\<close>

definition rotate_particle ::
  "update_env \<Rightarrow> DataTexture \<Rightarrow> real \<Rightarrow> nat \<Rightarrow> CPUStorageArrays \<Rightarrow> CPUStorageArrays" where
  "rotate_particle e curveTexture progress i cpu =
     (case particleRotations cpu of
        None \<Rightarrow> cpu
      | Some rot \<Rightarrow>
          if hasRotation e then
            let i3 = i * 3;
                rotSpeedX = rotSpeedMinX e + (rotSpeedMaxX e - rotSpeedMinX e) * hash (real i + 8888);
                rotSpeedY = rotSpeedMinY e + (rotSpeedMaxY e - rotSpeedMinY e) * hash (real i + 9999);
                rotSpeedZ = rotSpeedMinZ e + (rotSpeedMaxZ e - rotSpeedMinZ e) * hash (real i + 10101);
                rotSpeedMult =
                  (if rotSpeedCurveEnabled e then chan_a (sampleCurve curveTexture progress) else 1)
            in cpu\<lparr> particleRotations :=
                      Some (rot[i3 := rot ! i3 + rotSpeedX * dt e * rotSpeedMult,
                                i3 + 1 := rot ! (i3 + 1) + rotSpeedY * dt e * rotSpeedMult,
                                i3 + 2 := rot ! (i3 + 2) + rotSpeedZ * dt e * rotSpeedMult]) \<rparr>
          else cpu)"

text \<open>
  The rest of the loop body after the collision block: rotation, write-back of position
  and velocity, lifetime decay.
\<close>

fun finish_particle ::
  "update_env \<Rightarrow> DataTexture \<Rightarrow> CPUStorageArrays \<Rightarrow> nat \<Rightarrow> real \<Rightarrow> vec3 \<Rightarrow> vec3
     \<Rightarrow> CPUStorageArrays" where
  "finish_particle e curveTexture cpu i lifetime (px, py, pz) (vx, vy, vz) =
     (let i3 = i * 3;
          progress = 1 - lifetime;
          cpu1 = rotate_particle e curveTexture progress i cpu;
          cpu2 = cpu1\<lparr> positions := (positions cpu1)[i3 := px, i3 + 1 := py, i3 + 2 := pz],
                      velocities := (velocities cpu1)[i3 := vx, i3 + 1 := vy, i3 + 2 := vz] \<rparr>;
          fadeRate = fadeRates cpu2 ! i;
          newLifetime = lifetime - fadeRate * dt e
      in if newLifetime \<le> 0 then
           cpu2\<lparr> lifetimes := (lifetimes cpu2)[i := 0],
                 positions := (positions cpu2)[i3 + 1 := - 1000] \<rparr>
         else cpu2\<lparr> lifetimes := (lifetimes cpu2)[i := newLifetime] \<rparr>)"

text \<open>The loop body for index \<open>i\<close>. A particle with \<open>lifetime \<le> 0\<close> is skipped.\<close>

definition update_particle ::
  "noise \<Rightarrow> update_env \<Rightarrow> DataTexture \<Rightarrow> CPUStorageArrays \<Rightarrow> nat \<Rightarrow> CPUStorageArrays" where
  "update_particle curlNoise e curveTexture cpu i =
     (let lifetime = lifetimes cpu ! i
      in if lifetime \<le> 0 then cpu
         else
           case pre_collision curlNoise e curveTexture cpu i of
             ((px, py, pz), (vx, vy, vz)) \<Rightarrow>
               let i3 = i * 3
               in if collisionEnabled e \<and> py < collisionPlaneY e then
                    if collisionDie e then
                      cpu\<lparr> lifetimes := (lifetimes cpu)[i := 0],
                           positions := (positions cpu)[i3 + 1 := - 1000, i3 := px, i3 + 2 := pz],
                           velocities := (velocities cpu)[i3 := vx, i3 + 1 := vy, i3 + 2 := vz] \<rparr>
                    else
                      finish_particle e curveTexture cpu i lifetime
                        (px, collisionPlaneY e, pz)
                        (vx * collisionFriction e, \<bar>vy\<bar> * collisionBounce e,
                         vz * collisionFriction e)
                  else finish_particle e curveTexture cpu i lifetime (px, py, pz) (vx, vy, vz))"

definition cpuUpdate ::
  "noise \<Rightarrow> CPUStorageArrays \<Rightarrow> uniforms \<Rightarrow> DataTexture \<Rightarrow> nat \<Rightarrow> ShaderFeatures
     \<Rightarrow> CPUStorageArrays" where
  "cpuUpdate curlNoise cpu u curveTexture maxParticles features =
     (let e = read_env u features cpu
      in fold (\<lambda>i c. update_particle curlNoise e curveTexture c i) [0..<maxParticles] cpu)"


section \<open>Particle system (particle-system.ts)\<close>

text \<open>An exception thrown while the spawn pass runs.\<close>

datatype error = SpawnPassFailed

text \<open>
  The spawn pass is \<^verbatim>\<open>cpuSpawn(cpuArrays, uniforms, maxParticles)\<close> on the sequential backend
  and \<^verbatim>\<open>renderer.computeAsync(computeSpawn)\<close> on the device backend. Neither is among the
  sources, so the pass is a parameter of the model: a function of the particle store, the
  uniforms and the capacity that returns the written store or throws.
\<close>

type_synonym 'c spawn_pass = "'c \<Rightarrow> uniforms \<Rightarrow> nat \<Rightarrow> error + 'c"

text \<open>
  The fields of \<^verbatim>\<open>VFXParticleSystem\<close> that \<^verbatim>\<open>spawn\<close> and \<^verbatim>\<open>autoEmit\<close> use; \<open>maxParticles\<close>,
  \<open>delay\<close> and \<open>emitCount\<close> are those of \<^verbatim>\<open>normalizedProps\<close>, \<open>renderer\<close> tells whether
  \<^verbatim>\<open>this.renderer\<close> is set, \<open>store\<close> is the particle store of the backend.
\<close>

record 'c VFXParticleSystem =
  uniforms :: uniforms
  store :: 'c
  maxParticles :: nat
  delay :: real
  emitCount :: nat
  nextIndex :: nat
  initialized :: bool
  renderer :: bool
  isEmitting :: bool
  emitAccumulator :: real
  position :: vec3

text \<open>
  Modelled from the spec: \<^verbatim>\<open>applySpawnOverrides\<close> (uniforms.ts) is not among the sources.
  Following the specification it substitutes the overridden entries of the configuration
  for this call and hands back the action that restores their prior values; without
  overrides it changes nothing and hands back \<^verbatim>\<open>null\<close>.
\<close>

definition applySpawnOverrides ::
  "uniforms \<Rightarrow> uniforms option \<Rightarrow> uniforms \<times> (uniforms \<Rightarrow> uniforms) option" where
  "applySpawnOverrides u overrides =
     (case overrides of
        None \<Rightarrow> (u, None)
      | Some ov \<Rightarrow> (u ++ ov, Some (\<lambda>u' k. if ov k = None then u' k else u k)))"

text \<open>The four uniforms \<^verbatim>\<open>spawn\<close> sets; \<open>rnd\<close> is the value of \<^verbatim>\<open>Math.random()\<close>.\<close>

definition spawn_uniforms ::
  "uniforms \<Rightarrow> real \<Rightarrow> real \<Rightarrow> real \<Rightarrow> nat \<Rightarrow> nat \<Rightarrow> real \<Rightarrow> uniforms" where
  "spawn_uniforms u x y z startIdx endIdx rnd =
     u(''spawnPosition'' \<mapsto> Vec3 x y z,
       ''spawnIndexStart'' \<mapsto> Num (real startIdx),
       ''spawnIndexEnd'' \<mapsto> Num (real endIdx),
       ''spawnSeed'' \<mapsto> Num (rnd * 10000))"

text \<open>
  \<^verbatim>\<open>spawn\<close> up to the dispatch of the pass: overrides applied, index range computed and
  written to the uniforms, cursor advanced. The result is the system as the pass sees it
  and the restore action. The count and the cursor are natural numbers and the capacity is
  positive in every statement about the range (for a capacity of 0 the JavaScript
  remainder is NaN).
\<close>

definition spawn_prepare ::
  "real \<Rightarrow> 'c VFXParticleSystem \<Rightarrow> real \<Rightarrow> real \<Rightarrow> real \<Rightarrow> nat \<Rightarrow> uniforms option
     \<Rightarrow> 'c VFXParticleSystem \<times> (uniforms \<Rightarrow> uniforms) option" where
  "spawn_prepare rnd s x y z count overrides =
     (case applySpawnOverrides (uniforms s) overrides of
        (u0, restore) \<Rightarrow>
          let startIdx = nextIndex s;
              endIdx = (startIdx + count) mod maxParticles s
          in (s\<lparr> uniforms := spawn_uniforms u0 x y z startIdx endIdx rnd,
                 nextIndex := endIdx \<rparr>,
              restore))"

text \<open>
  \<^verbatim>\<open>spawn\<close>. The second component of the result tells whether the call ended by an
  exception; the first is the system as the call leaves it. There is no
  \<^verbatim>\<open>try\<close>/\<^verbatim>\<open>finally\<close>: the restore action runs only after the pass has returned.
\<close>

definition spawn ::
  "'c spawn_pass \<Rightarrow> real \<Rightarrow> 'c VFXParticleSystem \<Rightarrow> real \<Rightarrow> real \<Rightarrow> real \<Rightarrow> nat
     \<Rightarrow> uniforms option \<Rightarrow> 'c VFXParticleSystem \<times> error option" where
  "spawn pass rnd s x y z count overrides =
     (if \<not> initialized s \<or> \<not> renderer s then (s, None)
      else
        case spawn_prepare rnd s x y z count overrides of
          (s1, restore) \<Rightarrow>
            (case pass (store s1) (uniforms s1) (maxParticles s1) of
               Inl err \<Rightarrow> (s1, Some err)
             | Inr c \<Rightarrow>
                 (s1\<lparr> store := c,
                      uniforms := (case restore of None \<Rightarrow> uniforms s1
                                   | Some f \<Rightarrow> f (uniforms s1)) \<rparr>,
                  None)))"

text \<open>\<^verbatim>\<open>autoEmit\<close>; \<^verbatim>\<open>!currentDelay\<close> holds for a delay of 0.\<close>

definition autoEmit ::
  "'c spawn_pass \<Rightarrow> real \<Rightarrow> 'c VFXParticleSystem \<Rightarrow> real
     \<Rightarrow> 'c VFXParticleSystem \<times> error option" where
  "autoEmit pass rnd s delta =
     (if \<not> isEmitting s then (s, None)
      else
        case position s of
          (px, py, pz) \<Rightarrow>
            let currentDelay = delay s;
                currentEmitCount = emitCount s
            in if currentDelay = 0 then spawn pass rnd s px py pz currentEmitCount None
               else
                 let s1 = s\<lparr> emitAccumulator := emitAccumulator s + delta \<rparr>
                 in if emitAccumulator s1 \<ge> currentDelay then
                      spawn pass rnd
                        (s1\<lparr> emitAccumulator := emitAccumulator s1 - currentDelay \<rparr>)
                        px py pz currentEmitCount None
                    else (s1, None))"

text \<open>
  Modelled from the spec: the index test of the spawn pass (\<^verbatim>\<open>cpuSpawn\<close> in webgl-fallback,
  \<^verbatim>\<open>createSpawnCompute\<close> in shaders) is not among the sources. The pass receives the range
  only as the uniforms \<^verbatim>\<open>spawnIndexStart\<close> and \<^verbatim>\<open>spawnIndexEnd\<close>. Following the
  specification it claims the half-open range from start to end on the ring of
  \<open>capacity\<close> slots: the slots from start up to end when start is below end, and otherwise
  the slots from start to the last one together with those below end (a range that wraps;
  start equal to end is a full lap).
\<close>

definition spawn_in_range :: "nat \<Rightarrow> nat \<Rightarrow> nat \<Rightarrow> bool" where
  "spawn_in_range startIdx endIdx i =
     (if startIdx < endIdx then startIdx \<le> i \<and> i < endIdx else startIdx \<le> i \<or> i < endIdx)"

definition spawn_claimed :: "uniforms \<Rightarrow> nat \<Rightarrow> nat list" where
  "spawn_claimed u capacity =
     filter (spawn_in_range (nat \<lfloor>num_value u ''spawnIndexStart''\<rfloor>)
                            (nat \<lfloor>num_value u ''spawnIndexEnd''\<rfloor>))
       [0..<capacity]"

text \<open>The slots the specification assigns to a request: \<open>k, k + 1, \<dots>\<close> taken modulo the capacity.\<close>

definition requested_slots :: "nat \<Rightarrow> nat \<Rightarrow> nat \<Rightarrow> nat list" where
  "requested_slots capacity k count = map (\<lambda>j. (k + j) mod capacity) [0..<count]"

text \<open>
  Modelled from the spec: a spawn pass reduced to the slots it claims (the writes of
  \<^verbatim>\<open>cpuSpawn\<close> themselves are not among the sources). The store is the list of slots
  written; one run appends the slots of the range it is given in the uniforms.
\<close>

definition claiming_pass :: "nat list spawn_pass" where
  "claiming_pass written u capacity = Inr (written @ spawn_claimed u capacity)"

text \<open>The same system with an empty list of written slots as its store.\<close>

definition slot_log :: "'c VFXParticleSystem \<Rightarrow> nat list VFXParticleSystem" where
  "slot_log s =
     \<lparr> uniforms = uniforms s, store = [], maxParticles = maxParticles s, delay = delay s,
       emitCount = emitCount s, nextIndex = nextIndex s, initialized = initialized s,
       renderer = renderer s, isEmitting = isEmitting s,
       emitAccumulator = emitAccumulator s, position = position s \<rparr>"


section \<open>Vector notions used to state the properties\<close>

definition dot3 :: "vec3 \<Rightarrow> vec3 \<Rightarrow> real" where
  "dot3 a b = (case a of (ax, ay, az) \<Rightarrow> case b of (bx, by, bz) \<Rightarrow> ax * bx + ay * by + az * bz)"

definition scale3 :: "real \<Rightarrow> vec3 \<Rightarrow> vec3" where
  "scale3 c a = (case a of (ax, ay, az) \<Rightarrow> (c * ax, c * ay, c * az))"

definition sub3 :: "vec3 \<Rightarrow> vec3 \<Rightarrow> vec3" where
  "sub3 a b = (case a of (ax, ay, az) \<Rightarrow> case b of (bx, by, bz) \<Rightarrow> (ax - bx, ay - by, az - bz))"


section \<open>Concrete inputs\<close>

definition vortex_demo :: attractor where
  "vortex_demo = \<lparr> att_px = 2, att_py = 0, att_pz = 0, att_strength = 2, att_radius = 4,
      att_type = 1, att_ax = 0, att_ay = 1, att_az = 0 \<rparr>"

definition env0 :: update_env where
  "env0 = \<lparr> dt = 1, gravityX = 0, gravityY = 0, gravityZ = 0, sizeBasedGravity = 0,
      velocityCurveEnabled = False, frictionEasingType = 0, frictionIntensityStart = 0,
      frictionIntensityEnd = 0, hasTurbulence = False, turbIntensity = 0, turbFreq = 0,
      turbTime = 0, collisionEnabled = False, collisionPlaneY = 0, collisionBounce = 0,
      collisionFriction = 0, collisionDie = False, hasRotation = False,
      rotSpeedMinX = 0, rotSpeedMaxX = 0, rotSpeedMinY = 0, rotSpeedMaxY = 0,
      rotSpeedMinZ = 0, rotSpeedMaxZ = 0, rotSpeedCurveEnabled = False, attractors = [] \<rparr>"

definition no_noise :: noise where
  "no_noise x y z eps = (0, 0, 0)"

definition features_plain :: ShaderFeatures where
  "features_plain = \<lparr> f_turbulence = Some False, f_attractors = Some False,
      f_collision = None, f_rotation = Some False \<rparr>"

definition u_plain :: uniforms where
  "u_plain = [''deltaTime'' \<mapsto> Num 1, ''gravity'' \<mapsto> Vec3 0 0 0,
      ''sizeBasedGravity'' \<mapsto> Num 0, ''velocityCurveEnabled'' \<mapsto> Num 0,
      ''frictionEasingType'' \<mapsto> Num 0, ''frictionIntensityStart'' \<mapsto> Num 0,
      ''frictionIntensityEnd'' \<mapsto> Num 0, ''collisionEnabled'' \<mapsto> Num 1,
      ''collisionPlaneY'' \<mapsto> Num 0, ''collisionBounce'' \<mapsto> Num (1 / 2),
      ''collisionFriction'' \<mapsto> Num (1 / 2), ''collisionDie'' \<mapsto> Num 0]"

definition u_rewind :: uniforms where
  "u_rewind = u_plain(''deltaTime'' \<mapsto> Num (- 1))"

definition cpu_pair :: CPUStorageArrays where
  "cpu_pair = \<lparr> positions = [0, - 1000, 0, 0, 1, 0], velocities = [0, 0, 0, 2, - 4, 6],
      lifetimes = [0, 1], fadeRates = [0, 1 / 4], particleSizes = [0, 1],
      particleRotations = None, particleColorStarts = None, particleColorEnds = None \<rparr>"

text \<open>Two spawn passes used as concrete inputs: one that counts its runs, one that throws.\<close>

definition counting_pass :: "nat spawn_pass" where
  "counting_pass c u n = Inr (Suc c)"

definition failing_pass :: "nat spawn_pass" where
  "failing_pass c u n = Inl SpawnPassFailed"

definition sys10 :: "nat VFXParticleSystem" where
  "sys10 = \<lparr> uniforms = [''intensity'' \<mapsto> Num 1], store = 0, maxParticles = 10, delay = 2,
      emitCount = 5, nextIndex = 8, initialized = True, renderer = True, isEmitting = True,
      emitAccumulator = 0, position = (0, 0, 0) \<rparr>"

definition sys10_start :: "nat VFXParticleSystem" where
  "sys10_start = sys10\<lparr> nextIndex := 0 \<rparr>"

definition ov_intensity :: uniforms where
  "ov_intensity = [''intensity'' \<mapsto> Num 7]"


section \<open>Curve sampler: properties\<close>

lemma curve_t_clamp: "max 0 (min 1 progress) = curve_t progress"
  by (simp add: curve_t_def max_def min_def)

lemma curve_t_range: "0 \<le> curve_t progress \<and> curve_t progress \<le> 1"
  by (simp add: curve_t_def)

lemma sampleCurve_lerp:
  "sampleCurve tex progress =
     \<lparr> chan_r = curve_lerp tex progress 0, chan_g = curve_lerp tex progress 1,
       chan_b = curve_lerp tex progress 2, chan_a = curve_lerp tex progress 3 \<rparr>"
  unfolding sampleCurve_def curve_lerp_def curve_frac_def curve_idx1_def curve_idx0_def
  by (simp add: Let_def curve_t_clamp)

lemma curve_idx_bounds:
  assumes "1 \<le> w"
  shows "0 \<le> curve_idx0 w progress" and "curve_idx0 w progress \<le> curve_idx1 w progress"
    and "curve_idx1 w progress \<le> w - 1"
    and "0 \<le> curve_frac w progress" and "curve_frac w progress < 1"
proof -
  let ?tp = "curve_t progress * real_of_int (w - 1)"
  have w1: "0 \<le> real_of_int (w - 1)" using assms by simp
  have tp0: "0 \<le> ?tp" using curve_t_range w1 by simp
  have "curve_t progress * real_of_int (w - 1) \<le> 1 * real_of_int (w - 1)"
    using curve_t_range w1 by (intro mult_right_mono) auto
  then have tp1: "?tp \<le> real_of_int (w - 1)" by simp
  show i0: "0 \<le> curve_idx0 w progress"
    unfolding curve_idx0_def using tp0 by simp
  have "\<lfloor>?tp\<rfloor> \<le> \<lfloor>real_of_int (w - 1)\<rfloor>"
    using tp1 by (rule floor_mono)
  then have le: "curve_idx0 w progress \<le> w - 1"
    unfolding curve_idx0_def by simp
  show "curve_idx0 w progress \<le> curve_idx1 w progress"
    unfolding curve_idx1_def using le by simp
  show "curve_idx1 w progress \<le> w - 1"
    unfolding curve_idx1_def by simp
  show "0 \<le> curve_frac w progress"
    unfolding curve_frac_def curve_idx0_def by simp
  show "curve_frac w progress < 1"
    unfolding curve_frac_def curve_idx0_def by linarith
qed

lemma sampleCurve_low:
  assumes "progress \<le> 0"
  shows "sampleCurve tex progress = texel tex 0"
proof -
  have t: "curve_t progress = 0" using assms by (simp add: curve_t_def)
  show ?thesis
    by (simp add: sampleCurve_lerp curve_lerp_def curve_frac_def curve_idx0_def t texel_def)
qed

lemma sampleCurve_high:
  assumes "1 \<le> progress"
  shows "sampleCurve tex progress = texel tex (image_width tex - 1)"
proof -
  have t: "curve_t progress = 1" using assms by (simp add: curve_t_def)
  show ?thesis
    by (simp add: sampleCurve_lerp curve_lerp_def curve_frac_def curve_idx1_def
        curve_idx0_def t texel_def)
qed

text \<open>
  C9. For a curve texture of width \<open>w \<ge> 1\<close> (four floats per texel), \<open>sampleCurve\<close> clamps
  progress to \<open>[0,1]\<close>, takes the texel coordinate \<open>t * (w - 1)\<close>, \<open>idx0\<close> its floor,
  \<open>idx1 = min (idx0 + 1) (w - 1)\<close>, \<open>frac = t * (w - 1) - idx0\<close>, and interpolates each of
  the four channels linearly between the two texels. Both indices are texels of the
  texture, every read is inside the pixel array and \<open>0 \<le> frac < 1\<close>, so no value is
  extrapolated; a progress of 0 or below returns the first texel exactly, a progress of 1
  or above the last texel exactly.
\<close>

theorem sampleCurve_clamped_lerp:
  assumes "1 \<le> image_width tex"
    and "int (length (image_data tex)) = 4 * image_width tex"
  shows "sampleCurve tex progress =
           \<lparr> chan_r = curve_lerp tex progress 0, chan_g = curve_lerp tex progress 1,
             chan_b = curve_lerp tex progress 2, chan_a = curve_lerp tex progress 3 \<rparr>
         \<and> 0 \<le> curve_idx0 (image_width tex) progress
         \<and> curve_idx0 (image_width tex) progress \<le> curve_idx1 (image_width tex) progress
         \<and> curve_idx1 (image_width tex) progress \<le> image_width tex - 1
         \<and> curve_idx1 (image_width tex) progress * 4 + 3 < int (length (image_data tex))
         \<and> 0 \<le> curve_frac (image_width tex) progress
         \<and> curve_frac (image_width tex) progress < 1
         \<and> sampleCurve tex 0 = texel tex 0
         \<and> sampleCurve tex 1 = texel tex (image_width tex - 1)
         \<and> (progress \<le> 0 \<longrightarrow> sampleCurve tex progress = texel tex 0)
         \<and> (1 \<le> progress \<longrightarrow> sampleCurve tex progress = texel tex (image_width tex - 1))"
  using curve_idx_bounds [OF assms(1), of progress] assms(2) sampleCurve_lerp [of tex progress]
    sampleCurve_low [of 0 tex] sampleCurve_high [of 1 tex]
    sampleCurve_low [of progress tex] sampleCurve_high [of progress tex]
  by simp

theorem sampleCurve_clamped_lerp_witness:
  "1 \<le> image_width tex2
   \<and> int (length (image_data tex2)) = 4 * image_width tex2
   \<and> sampleCurve tex2 0 = \<lparr> chan_r = 1, chan_g = 2, chan_b = 3, chan_a = 4 \<rparr>
   \<and> sampleCurve tex2 1 = \<lparr> chan_r = 5, chan_g = 6, chan_b = 7, chan_a = 8 \<rparr>
   \<and> sampleCurve tex2 (-3) = \<lparr> chan_r = 1, chan_g = 2, chan_b = 3, chan_a = 4 \<rparr>
   \<and> sampleCurve tex2 7 = \<lparr> chan_r = 5, chan_g = 6, chan_b = 7, chan_a = 8 \<rparr>"
proof -
  have w: "1 \<le> image_width tex2" by (simp add: tex2_def)
  have n: "int (length (image_data tex2)) = 4 * image_width tex2" by (simp add: tex2_def)
  have t0: "texel tex2 0 = \<lparr> chan_r = 1, chan_g = 2, chan_b = 3, chan_a = 4 \<rparr>"
    by (simp add: texel_def tex2_def texel_at_def)
  have t1: "texel tex2 (image_width tex2 - 1) = \<lparr> chan_r = 5, chan_g = 6, chan_b = 7, chan_a = 8 \<rparr>"
    by (simp add: texel_def tex2_def texel_at_def)
  from sampleCurve_clamped_lerp [OF w n, of "-3"]
  have lo: "sampleCurve tex2 0 = texel tex2 0"
    and hi: "sampleCurve tex2 1 = texel tex2 (image_width tex2 - 1)"
    and below: "(-3::real) \<le> 0 \<longrightarrow> sampleCurve tex2 (-3) = texel tex2 0"
    by blast+
  from sampleCurve_clamped_lerp [OF w n, of 7]
  have above: "(1::real) \<le> 7 \<longrightarrow> sampleCurve tex2 7 = texel tex2 (image_width tex2 - 1)"
    by blast
  from below have below': "sampleCurve tex2 (-3) = texel tex2 0" by simp
  from above have above': "sampleCurve tex2 7 = texel tex2 (image_width tex2 - 1)" by simp
  show ?thesis
    unfolding lo hi below' above' t0 t1 using w n by simp
qed


section \<open>Attractors: direction of the force\<close>

lemma attractor_falloff_nonneg: "0 \<le> attractor_falloff att d"
proof -
  have "0 \<le> max d 0.01 * max d 0.01" by simp
  then have "0 \<le> 1 / (max d 0.01 * max d 0.01 + 1)" by simp
  then show ?thesis by (simp add: attractor_falloff_def Let_def)
qed

lemma cross_orthogonal:
  fixes ax ay az tx ty tz k s f :: real
  shows "((ay * tz - az * ty) / k) * s * f * tx + ((az * tx - ax * tz) / k) * s * f * ty
         + ((ax * ty - ay * tx) / k) * s * f * tz = 0"
proof -
  have r: "\<And>a t::real. (a / k) * s * f * t = (a * t) * (s * f / k)" by simp
  have "((ay * tz - az * ty) / k) * s * f * tx + ((az * tx - ax * tz) / k) * s * f * ty
         + ((ax * ty - ay * tx) / k) * s * f * tz
        = ((ay * tz - az * ty) * tx + (az * tx - ax * tz) * ty + (ax * ty - ay * tx) * tz)
          * (s * f / k)"
    unfolding r by (simp only: distrib_right)
  also have "(ay * tz - az * ty) * tx + (az * tx - ax * tz) * ty + (ax * ty - ay * tx) * tz = 0"
    by (simp add: algebra_simps)
  finally show ?thesis by simp
qed

lemma vortex_force_orthogonal:
  assumes "\<not> att_type att < 0.5"
  shows "dot3 (attractor_force att p) (to_attractor att p) = 0"
proof -
  obtain px py pz where p: "p = (px, py, pz)" by (cases p) auto
  define tx where "tx = att_px att - px"
  define ty where "ty = att_py att - py"
  define tz where "tz = att_pz att - pz"
  define f where "f = attractor_falloff att (attractor_dist (tx, ty, tz))"
  define k where "k = max (sqrt ((att_ay att * tz - att_az att * ty) * (att_ay att * tz - att_az att * ty)
      + (att_az att * tx - att_ax att * tz) * (att_az att * tx - att_ax att * tz)
      + (att_ax att * ty - att_ay att * tx) * (att_ax att * ty - att_ay att * tx))) 0.001"
  have t: "to_attractor att p = (tx, ty, tz)"
    by (simp add: p tx_def ty_def tz_def)
  have F: "attractor_force att p =
      (((att_ay att * tz - att_az att * ty) / k) * att_strength att * f,
       ((att_az att * tx - att_ax att * tz) / k) * att_strength att * f,
       ((att_ax att * ty - att_ay att * tx) / k) * att_strength att * f)"
    unfolding attractor_force_def t using assms
    by (simp add: Let_def f_def k_def)
  show ?thesis
    unfolding F t dot3_def by (simp only: prod.case cross_orthogonal)
qed

lemma point_force_parallel:
  assumes "att_type att < 0.5"
  shows "attractor_force att p =
           scale3 (att_strength att * attractor_falloff att (attractor_dist (to_attractor att p))
                   / max (attractor_dist (to_attractor att p)) 0.01)
             (to_attractor att p)"
proof -
  obtain px py pz where p: "p = (px, py, pz)" by (cases p) auto
  show ?thesis
    using assms unfolding p attractor_force_def scale3_def
    by (simp add: Let_def)
qed

lemma apply_attractor_delta:
  "sub3 (apply_attractor e p v att) v =
     (if \<bar>att_strength att\<bar> \<le> 0.001 then (0, 0, 0) else scale3 (dt e) (attractor_force att p))"
proof -
  obtain vx vy vz where v: "v = (vx, vy, vz)" by (cases v) auto
  obtain fx fy fz where f: "attractor_force att p = (fx, fy, fz)" by (cases "attractor_force att p") auto
  show ?thesis unfolding v by (simp add: f sub3_def scale3_def)
qed

lemma dot3_scale3: "dot3 (scale3 c a) b = c * dot3 a b"
  by (cases a, cases b) (simp add: dot3_def scale3_def algebra_simps)

lemma dot3_zero: "dot3 (0, 0, 0) b = 0"
  by (cases b) (simp add: dot3_def)

lemma scale3_scale3: "scale3 c (scale3 d a) = scale3 (c * d) a"
  by (cases a) (simp add: scale3_def)

lemma scale3_zero: "scale3 0 a = (0, 0, 0)"
  by (cases a) (simp add: scale3_def)

text \<open>
  C7. For every attractor and particle position: the force of a vortex attractor (type not
  below 0.5) is orthogonal to the vector from the particle to the attractor, the dot
  product being exactly 0 in real arithmetic, and so is what the loop adds to the
  velocity; the force of a point attractor (type below 0.5) is that vector scaled by
  \<open>strength * falloff / max dist 0.01\<close> with \<open>falloff \<ge> 0\<close>, so it is parallel to it, and
  so is what the loop adds to the velocity.
\<close>

theorem attractor_force_direction:
  "(\<not> att_type att < 0.5 \<longrightarrow>
      dot3 (attractor_force att p) (to_attractor att p) = 0
      \<and> dot3 (sub3 (apply_attractor e p v att) v) (to_attractor att p) = 0)
   \<and> (att_type att < 0.5 \<longrightarrow>
        0 \<le> attractor_falloff att (attractor_dist (to_attractor att p))
        \<and> attractor_force att p =
            scale3 (att_strength att * attractor_falloff att (attractor_dist (to_attractor att p))
                    / max (attractor_dist (to_attractor att p)) 0.01)
              (to_attractor att p)
        \<and> (\<exists>c. sub3 (apply_attractor e p v att) v = scale3 c (to_attractor att p)))"
proof (intro conjI impI)
  assume vortex: "\<not> att_type att < 0.5"
  show "dot3 (attractor_force att p) (to_attractor att p) = 0"
    using vortex by (rule vortex_force_orthogonal)
  then show "dot3 (sub3 (apply_attractor e p v att) v) (to_attractor att p) = 0"
    by (simp add: apply_attractor_delta dot3_scale3 dot3_zero)
next
  assume point: "att_type att < 0.5"
  show "0 \<le> attractor_falloff att (attractor_dist (to_attractor att p))"
    by (rule attractor_falloff_nonneg)
  show par: "attractor_force att p =
            scale3 (att_strength att * attractor_falloff att (attractor_dist (to_attractor att p))
                    / max (attractor_dist (to_attractor att p)) 0.01)
              (to_attractor att p)"
    using point by (rule point_force_parallel)
  show "\<exists>c. sub3 (apply_attractor e p v att) v = scale3 c (to_attractor att p)"
  proof (cases "\<bar>att_strength att\<bar> \<le> 0.001")
    case True
    then have "sub3 (apply_attractor e p v att) v = scale3 0 (to_attractor att p)"
      by (simp add: apply_attractor_delta scale3_zero)
    then show ?thesis ..
  next
    case False
    then have "sub3 (apply_attractor e p v att) v = scale3 (dt e) (attractor_force att p)"
      by (simp add: apply_attractor_delta)
    also have "\<dots> = scale3 (dt e * (att_strength att * attractor_falloff att (attractor_dist (to_attractor att p))
                    / max (attractor_dist (to_attractor att p)) 0.01)) (to_attractor att p)"
      by (subst par) (simp only: scale3_scale3)
    finally show ?thesis ..
  qed
qed

theorem attractor_force_direction_witness:
  "\<not> att_type vortex_demo < 0.5
   \<and> to_attractor vortex_demo (0, 0, 0) = (2, 0, 0)
   \<and> attractor_force vortex_demo (0, 0, 0) = (0, 0, - 1)
   \<and> dot3 (attractor_force vortex_demo (0, 0, 0)) (to_attractor vortex_demo (0, 0, 0)) = 0
   \<and> att_type (vortex_demo\<lparr>att_type := 0\<rparr>) < 0.5
   \<and> attractor_force (vortex_demo\<lparr>att_type := 0\<rparr>) (0, 0, 0) = (1, 0, 0)
   \<and> attractor_force (vortex_demo\<lparr>att_type := 0\<rparr>) (0, 0, 0)
       = scale3 (1 / 2) (to_attractor (vortex_demo\<lparr>att_type := 0\<rparr>) (0, 0, 0))"
proof -
  have v: "\<not> att_type vortex_demo < 0.5" by (simp add: vortex_demo_def)
  have pt: "att_type (vortex_demo\<lparr>att_type := 0\<rparr>) < 0.5" by simp
  have a: "dot3 (attractor_force vortex_demo (0, 0, 0)) (to_attractor vortex_demo (0, 0, 0)) = 0"
    using attractor_force_direction [of vortex_demo "(0, 0, 0)" env0 "(0, 0, 0)"] v by blast
  have b: "attractor_force (vortex_demo\<lparr>att_type := 0\<rparr>) (0, 0, 0)
       = scale3 (att_strength (vortex_demo\<lparr>att_type := 0\<rparr>)
                 * attractor_falloff (vortex_demo\<lparr>att_type := 0\<rparr>)
                     (attractor_dist (to_attractor (vortex_demo\<lparr>att_type := 0\<rparr>) (0, 0, 0)))
                 / max (attractor_dist (to_attractor (vortex_demo\<lparr>att_type := 0\<rparr>) (0, 0, 0))) 0.01)
           (to_attractor (vortex_demo\<lparr>att_type := 0\<rparr>) (0, 0, 0))"
    using attractor_force_direction [of "vortex_demo\<lparr>att_type := 0\<rparr>" "(0, 0, 0)" env0 "(0, 0, 0)"] pt
    by blast
  have c: "att_strength (vortex_demo\<lparr>att_type := 0\<rparr>)
                 * attractor_falloff (vortex_demo\<lparr>att_type := 0\<rparr>)
                     (attractor_dist (to_attractor (vortex_demo\<lparr>att_type := 0\<rparr>) (0, 0, 0)))
                 / max (attractor_dist (to_attractor (vortex_demo\<lparr>att_type := 0\<rparr>) (0, 0, 0))) 0.01
           = 1 / 2"
    by (simp add: vortex_demo_def attractor_falloff_def Let_def)
  have d: "attractor_force vortex_demo (0, 0, 0) = (0, 0, - 1)"
    by (simp add: attractor_force_def vortex_demo_def attractor_falloff_def Let_def)
  have e: "attractor_force (vortex_demo\<lparr>att_type := 0\<rparr>) (0, 0, 0) = (1, 0, 0)"
    by (simp add: attractor_force_def vortex_demo_def attractor_falloff_def Let_def)
  have f: "to_attractor vortex_demo (0, 0, 0) = (2, 0, 0)" by (simp add: vortex_demo_def)
  from b have b': "attractor_force (vortex_demo\<lparr>att_type := 0\<rparr>) (0, 0, 0)
       = scale3 (1 / 2) (to_attractor (vortex_demo\<lparr>att_type := 0\<rparr>) (0, 0, 0))"
    by (simp only: c)
  show ?thesis using v pt a b' d e f by blast
qed


section \<open>Sequential update: frame, lifetime range and bounce\<close>

lemma vec3_at_update_other:
  assumes "m \<noteq> i * 3" and "m \<noteq> i * 3 + 1" and "m \<noteq> i * 3 + 2"
  shows "vec3_at (xs[m := v]) i = vec3_at xs i"
  using assms by (simp add: vec3_at_def)

lemma vec3_at_update_y:
  assumes "i * 3 + 2 < length xs"
  shows "vec3_at (xs[i * 3 := a, i * 3 + 1 := b, i * 3 + 2 := c]) i = (a, b, c)"
  using assms by (simp add: vec3_at_def)

lemma rotate_particle_fields:
  "positions (rotate_particle e tex pr j cpu) = positions cpu"
  "velocities (rotate_particle e tex pr j cpu) = velocities cpu"
  "lifetimes (rotate_particle e tex pr j cpu) = lifetimes cpu"
  "fadeRates (rotate_particle e tex pr j cpu) = fadeRates cpu"
  "particleSizes (rotate_particle e tex pr j cpu) = particleSizes cpu"
  "particleColorStarts (rotate_particle e tex pr j cpu) = particleColorStarts cpu"
  "particleColorEnds (rotate_particle e tex pr j cpu) = particleColorEnds cpu"
  by (simp_all add: rotate_particle_def Let_def split: option.split)

lemma rotate_particle_rotation_other:
  assumes "j \<noteq> i"
  shows "map_option (\<lambda>xs. vec3_at xs i) (particleRotations (rotate_particle e tex pr j cpu))
         = map_option (\<lambda>xs. vec3_at xs i) (particleRotations cpu)"
  using assms
  by (simp add: rotate_particle_def Let_def vec3_at_update_other
      split: option.split)

lemma rotate_particle_sized:
  "opt_length (particleRotations (rotate_particle e tex pr j cpu)) m
   = opt_length (particleRotations cpu) m"
  by (simp add: rotate_particle_def Let_def opt_length_def split: option.split)

lemma finish_particle_other:
  assumes "j \<noteq> i"
  shows "particle_at (finish_particle e tex cpu j l p v) i = particle_at cpu i"
proof -
  obtain px py pz where p: "p = (px, py, pz)" by (cases p) auto
  obtain vx vy vz where v: "v = (vx, vy, vz)" by (cases v) auto
  have ne: "i \<noteq> j" using assms by simp
  show ?thesis
    unfolding p v using assms ne
    by (simp add: particle_at_def Let_def rotate_particle_fields
        rotate_particle_rotation_other vec3_at_update_other)
qed

lemma update_particle_other:
  assumes "j \<noteq> i"
  shows "particle_at (update_particle N e tex cpu j) i = particle_at cpu i"
proof -
  obtain px py pz vx vy vz
    where pc: "pre_collision N e tex cpu j = ((px, py, pz), (vx, vy, vz))"
    by (cases "pre_collision N e tex cpu j") auto
  have ne: "i \<noteq> j" using assms by simp
  have die: "particle_at
     (cpu\<lparr> lifetimes := (lifetimes cpu)[j := 0],
           positions := (positions cpu)[j * 3 + 1 := - 1000, j * 3 := px, j * 3 + 2 := pz],
           velocities := (velocities cpu)[j * 3 := vx, j * 3 + 1 := vy, j * 3 + 2 := vz] \<rparr>) i
     = particle_at cpu i"
    using assms ne
    by (simp add: particle_at_def vec3_at_update_other)
  show ?thesis
    unfolding update_particle_def Let_def pc prod.case
    using die finish_particle_other [OF assms] by (simp del: finish_particle.simps)
qed

lemma update_particle_dead:
  assumes "lifetimes cpu ! i \<le> 0"
  shows "update_particle N e tex cpu i = cpu"
  using assms by (simp add: update_particle_def)

lemma finish_particle_sized:
  "storage_sized (finish_particle e tex cpu j l p v) n = storage_sized cpu n"
proof -
  obtain px py pz where p: "p = (px, py, pz)" by (cases p) auto
  obtain vx vy vz where v: "v = (vx, vy, vz)" by (cases v) auto
  show ?thesis
    unfolding p v
    by (simp add: storage_sized_def Let_def rotate_particle_fields rotate_particle_sized)
qed

lemma update_particle_sized:
  "storage_sized (update_particle N e tex cpu j) n = storage_sized cpu n"
proof -
  obtain px py pz vx vy vz
    where pc: "pre_collision N e tex cpu j = ((px, py, pz), (vx, vy, vz))"
    by (cases "pre_collision N e tex cpu j") auto
  show ?thesis
    unfolding update_particle_def Let_def pc prod.case
    by (simp add: finish_particle_sized del: finish_particle.simps) (simp add: storage_sized_def)
qed

lemma fold_update_other:
  assumes "i \<notin> set js"
  shows "particle_at (fold (\<lambda>j c. update_particle N e tex c j) js cpu) i = particle_at cpu i"
  using assms
proof (induction js arbitrary: cpu)
  case Nil
  then show ?case by simp
next
  case (Cons j js)
  then have "j \<noteq> i" and "i \<notin> set js" by auto
  then show ?case
    using Cons.IH [of "update_particle N e tex cpu j"] update_particle_other [of j i N e tex cpu]
    by simp
qed

lemma fold_update_sized:
  "storage_sized (fold (\<lambda>j c. update_particle N e tex c j) js cpu) n = storage_sized cpu n"
  by (induction js arbitrary: cpu) (simp_all add: update_particle_sized)

lemma particle_at_lifetime: "p_lifetime (particle_at cpu i) = lifetimes cpu ! i"
  by (simp add: particle_at_def)

lemma particle_at_fadeRate: "p_fadeRate (particle_at cpu i) = fadeRates cpu ! i"
  by (simp add: particle_at_def)

lemma fold_update_dead:
  assumes "lifetimes cpu ! i \<le> 0"
  shows "particle_at (fold (\<lambda>j c. update_particle N e tex c j) js cpu) i = particle_at cpu i"
  using assms
proof (induction js arbitrary: cpu)
  case Nil
  then show ?case by simp
next
  case (Cons j js)
  have step: "particle_at (update_particle N e tex cpu j) i = particle_at cpu i"
  proof (cases "j = i")
    case True
    then show ?thesis using Cons.prems by (simp add: update_particle_dead)
  next
    case False
    then show ?thesis by (rule update_particle_other)
  qed
  then have "lifetimes (update_particle N e tex cpu j) ! i = lifetimes cpu ! i"
    by (metis particle_at_lifetime)
  then have "lifetimes (update_particle N e tex cpu j) ! i \<le> 0"
    using Cons.prems by simp
  from Cons.IH [OF this] step show ?case by simp
qed

lemma cpuUpdate_slot:
  assumes "i < n"
  shows "\<exists>c. storage_sized c n = storage_sized cpu n
             \<and> particle_at c i = particle_at cpu i
             \<and> particle_at (cpuUpdate N cpu u tex n fs) i
                 = particle_at (update_particle N (read_env u fs cpu) tex c i) i"
proof -
  let ?e = "read_env u fs cpu"
  let ?f = "\<lambda>j c. update_particle N ?e tex c j"
  let ?c = "fold ?f [0..<i] cpu"
  have split: "[0..<n] = [0..<i] @ i # [Suc i..<n]"
    using assms by (metis le_add1 less_imp_add_positive upt_add_eq_append upt_conv_Cons plus_nat.add_0 zero_le)
  have "cpuUpdate N cpu u tex n fs = fold ?f [Suc i..<n] (update_particle N ?e tex ?c i)"
    unfolding cpuUpdate_def Let_def split by simp
  moreover have "particle_at (fold ?f [Suc i..<n] (update_particle N ?e tex ?c i)) i
                 = particle_at (update_particle N ?e tex ?c i) i"
    by (rule fold_update_other) simp
  moreover have "particle_at ?c i = particle_at cpu i"
    by (rule fold_update_other) simp
  moreover have "storage_sized ?c n = storage_sized cpu n"
    by (rule fold_update_sized)
  ultimately show ?thesis by metis
qed

lemma pre_collision_cong:
  assumes "particle_at c i = particle_at cpu i"
  shows "pre_collision N e tex c i = pre_collision N e tex cpu i"
proof -
  have "p_position (particle_at c i) = p_position (particle_at cpu i)"
    and "p_velocity (particle_at c i) = p_velocity (particle_at cpu i)"
    and "p_lifetime (particle_at c i) = p_lifetime (particle_at cpu i)"
    and "p_size (particle_at c i) = p_size (particle_at cpu i)"
    using assms by simp_all
  then show ?thesis
    by (simp add: pre_collision_def particle_at_def)
qed

lemma finish_particle_slot:
  assumes "storage_sized c n" and "i < n"
  shows "vec3_at (velocities (finish_particle e tex c i l (px, py, pz) (vx, vy, vz))) i = (vx, vy, vz)"
    and "vec3_at (positions (finish_particle e tex c i l (px, py, pz) (vx, vy, vz))) i
         = (px, (if l - fadeRates c ! i * dt e \<le> 0 then - 1000 else py), pz)"
    and "lifetimes (finish_particle e tex c i l (px, py, pz) (vx, vy, vz)) ! i
         = (if l - fadeRates c ! i * dt e \<le> 0 then 0 else l - fadeRates c ! i * dt e)"
  using assms
  by (simp_all add: Let_def rotate_particle_fields vec3_at_def storage_sized_def)

lemma update_particle_lifetime_range:
  assumes "storage_sized c n" and "i < n"
    and "0 \<le> lifetimes c ! i" and "lifetimes c ! i \<le> 1" and "0 \<le> fadeRates c ! i * dt e"
  shows "0 \<le> lifetimes (update_particle N e tex c i) ! i
         \<and> lifetimes (update_particle N e tex c i) ! i \<le> 1"
proof (cases "lifetimes c ! i \<le> 0")
  case True
  then show ?thesis using assms by (simp add: update_particle_dead)
next
  case False
  obtain px py pz vx vy vz
    where pc: "pre_collision N e tex c i = ((px, py, pz), (vx, vy, vz))"
    by (cases "pre_collision N e tex c i") auto
  have len: "i < length (lifetimes c)" using assms by (simp add: storage_sized_def)
  have fin: "\<And>p v. 0 \<le> lifetimes (finish_particle e tex c i (lifetimes c ! i) p v) ! i
                  \<and> lifetimes (finish_particle e tex c i (lifetimes c ! i) p v) ! i \<le> 1"
  proof -
    fix p v :: vec3
    obtain a b d where p: "p = (a, b, d)" by (cases p) auto
    obtain a' b' d' where v: "v = (a', b', d')" by (cases v) auto
    show "0 \<le> lifetimes (finish_particle e tex c i (lifetimes c ! i) p v) ! i
          \<and> lifetimes (finish_particle e tex c i (lifetimes c ! i) p v) ! i \<le> 1"
      unfolding p v finish_particle_slot(3) [OF assms(1,2)]
      using assms(3,4,5) by auto
  qed
  show ?thesis
    unfolding update_particle_def Let_def pc prod.case
    using False fin len by (simp del: finish_particle.simps)
qed

lemma update_particle_bounce:
  assumes "storage_sized c n" and "i < n" and "0 < lifetimes c ! i"
    and "collisionEnabled e" and "\<not> collisionDie e"
    and "pre_collision N e tex c i = ((px, py, pz), (vx, vy, vz))"
    and "py < collisionPlaneY e"
  shows "vec3_at (velocities (update_particle N e tex c i)) i
         = (vx * collisionFriction e, \<bar>vy\<bar> * collisionBounce e, vz * collisionFriction e)"
    and "vec3_at (positions (update_particle N e tex c i)) i
         = (px, (if lifetimes c ! i - fadeRates c ! i * dt e \<le> 0 then - 1000
                 else collisionPlaneY e), pz)"
proof -
  have up: "update_particle N e tex c i
      = finish_particle e tex c i (lifetimes c ! i) (px, collisionPlaneY e, pz)
          (vx * collisionFriction e, \<bar>vy\<bar> * collisionBounce e, vz * collisionFriction e)"
    unfolding update_particle_def Let_def assms(6) prod.case
    using assms(3,4,5,7) by (simp del: finish_particle.simps)
  show "vec3_at (velocities (update_particle N e tex c i)) i
         = (vx * collisionFriction e, \<bar>vy\<bar> * collisionBounce e, vz * collisionFriction e)"
    unfolding up by (rule finish_particle_slot(1) [OF assms(1,2)])
  show "vec3_at (positions (update_particle N e tex c i)) i
         = (px, (if lifetimes c ! i - fadeRates c ! i * dt e \<le> 0 then - 1000
                 else collisionPlaneY e), pz)"
    unfolding up by (rule finish_particle_slot(2) [OF assms(1,2)])
qed

lemma particle_at_velocity: "p_velocity (particle_at cpu i) = vec3_at (velocities cpu) i"
  by (simp add: particle_at_def)

lemma particle_at_position: "p_position (particle_at cpu i) = vec3_at (positions cpu) i"
  by (simp add: particle_at_def)

lemma read_env_dt: "dt (read_env u fs cpu) = num_value u ''deltaTime''"
  by (simp add: read_env_def Let_def)

text \<open>
  C6. A particle whose lifetime is at most 0 before the call is left completely unchanged
  by \<open>cpuUpdate\<close>: position, velocity, lifetime, fade rate, size, rotation and colours of
  its row are the same after the call.
\<close>

theorem cpuUpdate_skips_dead:
  assumes "i < n" and "storage_sized cpu n" and "lifetimes cpu ! i \<le> 0"
  shows "particle_at (cpuUpdate N cpu u tex n fs) i = particle_at cpu i"
  unfolding cpuUpdate_def Let_def using assms(3) by (rule fold_update_dead)

text \<open>
  C2 (amended). If before the call the lifetime of particle \<open>i\<close> is in \<open>[0, 1]\<close> and its
  fade rate times \<open>deltaTime\<close> is not negative, then after \<open>cpuUpdate\<close> its stored lifetime
  is in \<open>[0, 1]\<close> again. Without the condition on the decay the bound fails: a negative
  \<open>deltaTime\<close> takes a lifetime of 1 to 5/4.
\<close>

theorem cpuUpdate_lifetime_range:
  assumes "storage_sized cpu n" and "i < n"
    and "0 \<le> lifetimes cpu ! i" and "lifetimes cpu ! i \<le> 1"
    and "0 \<le> fadeRates cpu ! i * num_value u ''deltaTime''"
  shows "0 \<le> lifetimes (cpuUpdate N cpu u tex n fs) ! i
         \<and> lifetimes (cpuUpdate N cpu u tex n fs) ! i \<le> 1"
proof -
  let ?e = "read_env u fs cpu"
  obtain c where sz: "storage_sized c n = storage_sized cpu n"
    and same: "particle_at c i = particle_at cpu i"
    and res: "particle_at (cpuUpdate N cpu u tex n fs) i
              = particle_at (update_particle N ?e tex c i) i"
    using cpuUpdate_slot [OF assms(2)] by blast
  have l: "lifetimes c ! i = lifetimes cpu ! i"
    using same by (metis particle_at_lifetime)
  have f: "fadeRates c ! i = fadeRates cpu ! i"
    using same by (metis particle_at_fadeRate)
  have "lifetimes (cpuUpdate N cpu u tex n fs) ! i = lifetimes (update_particle N ?e tex c i) ! i"
    using res by (metis particle_at_lifetime)
  moreover have "0 \<le> lifetimes (update_particle N ?e tex c i) ! i
         \<and> lifetimes (update_particle N ?e tex c i) ! i \<le> 1"
    using assms sz by (intro update_particle_lifetime_range [of c n]) (simp_all add: l f read_env_dt)
  ultimately show ?thesis by simp
qed

text \<open>
  C8. With collision enabled and \<open>die\<close> off, a live particle whose position after
  integration is below the plane ends the call with velocity
  \<open>(vx * friction, |vy| * bounce, vz * friction)\<close>, where \<open>(vx, vy, vz)\<close> is its velocity at the
  collision test, and with \<open>position.y\<close> clamped to the plane (written back as such; the
  lifetime decay that follows replaces it by the sentinel -1000 when the particle expires
  in the same call). With bounce 0.5 and \<open>vy = -4\<close> the stored \<open>velocity.y\<close> is 2.
\<close>

theorem cpuUpdate_bounce:
  assumes "storage_sized cpu n" and "i < n" and "0 < lifetimes cpu ! i"
    and "collisionEnabled (read_env u fs cpu)" and "\<not> collisionDie (read_env u fs cpu)"
    and "pre_collision N (read_env u fs cpu) tex cpu i = ((px, py, pz), (vx, vy, vz))"
    and "py < collisionPlaneY (read_env u fs cpu)"
  shows "vec3_at (velocities (cpuUpdate N cpu u tex n fs)) i
           = (vx * collisionFriction (read_env u fs cpu),
              \<bar>vy\<bar> * collisionBounce (read_env u fs cpu),
              vz * collisionFriction (read_env u fs cpu))
         \<and> vec3_at (positions (cpuUpdate N cpu u tex n fs)) i
           = (px,
              (if lifetimes cpu ! i - fadeRates cpu ! i * dt (read_env u fs cpu) \<le> 0 then - 1000
               else collisionPlaneY (read_env u fs cpu)),
              pz)"
proof -
  let ?e = "read_env u fs cpu"
  obtain c where sz: "storage_sized c n = storage_sized cpu n"
    and same: "particle_at c i = particle_at cpu i"
    and res: "particle_at (cpuUpdate N cpu u tex n fs) i
              = particle_at (update_particle N ?e tex c i) i"
    using cpuUpdate_slot [OF assms(2)] by blast
  have l: "lifetimes c ! i = lifetimes cpu ! i"
    using same by (metis particle_at_lifetime)
  have f: "fadeRates c ! i = fadeRates cpu ! i"
    using same by (metis particle_at_fadeRate)
  have pc: "pre_collision N ?e tex c i = ((px, py, pz), (vx, vy, vz))"
    using pre_collision_cong [OF same] assms(6) by simp
  have c1: "storage_sized c n" using sz assms(1) by simp
  have c3: "0 < lifetimes c ! i" using l assms(3) by simp
  note b = update_particle_bounce [OF c1 assms(2) c3 assms(4,5) pc assms(7)]
  have v: "vec3_at (velocities (cpuUpdate N cpu u tex n fs)) i
           = vec3_at (velocities (update_particle N ?e tex c i)) i"
    using res by (metis particle_at_velocity)
  have p: "vec3_at (positions (cpuUpdate N cpu u tex n fs)) i
           = vec3_at (positions (update_particle N ?e tex c i)) i"
    using res by (metis particle_at_position)
  show ?thesis unfolding v p b l f by simp
qed

lemma env_plain: "read_env u_plain features_plain cpu_pair =
    env0\<lparr> collisionEnabled := True, collisionBounce := 1 / 2, collisionFriction := 1 / 2 \<rparr>"
  by (simp add: read_env_def u_plain_def features_plain_def cpu_pair_def env0_def Let_def
      num_value_def vec_x_def vec_y_def vec_z_def)

lemma sized_pair: "storage_sized cpu_pair 2"
  by (simp add: storage_sized_def cpu_pair_def opt_length_def)

lemma pc_pair: "pre_collision no_noise (read_env u_plain features_plain cpu_pair) tex2 cpu_pair 1
   = ((2, - 3, 6), (2, - 4, 6))"
  unfolding env_plain
  by (simp add: pre_collision_def env0_def cpu_pair_def vec3_at_def speed_scale_def Let_def)

lemma upt2: "[0..<2] = [0, 1]"
  by (simp add: upt_rec)

lemma env_rewind: "read_env u_rewind features_plain cpu_pair =
    env0\<lparr> dt := - 1, collisionEnabled := True, collisionBounce := 1 / 2,
      collisionFriction := 1 / 2 \<rparr>"
  by (simp add: read_env_def u_rewind_def u_plain_def features_plain_def cpu_pair_def env0_def
      Let_def num_value_def vec_x_def vec_y_def vec_z_def)

lemma cpuUpdate_pair_rewind:
  "cpuUpdate no_noise cpu_pair u_rewind tex2 2 features_plain
   = cpu_pair\<lparr> positions := [0, - 1000, 0, - 2, 5, - 6], lifetimes := [0, 5 / 4] \<rparr>"
  unfolding cpuUpdate_def Let_def env_rewind upt2
  by (simp add: update_particle_def pre_collision_def env0_def cpu_pair_def vec3_at_def
      speed_scale_def Let_def rotate_particle_def)

theorem cpuUpdate_skips_dead_witness:
  "(0::nat) < 2 \<and> storage_sized cpu_pair 2 \<and> lifetimes cpu_pair ! 0 \<le> 0
   \<and> particle_at (cpuUpdate no_noise cpu_pair u_plain tex2 2 features_plain) 0
       = \<lparr> p_position = (0, - 1000, 0), p_velocity = (0, 0, 0), p_lifetime = 0,
           p_fadeRate = 0, p_size = 0, p_rotation = None, p_colorStart = None,
           p_colorEnd = None \<rparr>"
proof -
  have l: "lifetimes cpu_pair ! 0 \<le> 0" by (simp add: cpu_pair_def)
  have n: "(0::nat) < 2" by simp
  have "particle_at (cpuUpdate no_noise cpu_pair u_plain tex2 2 features_plain) 0
        = particle_at cpu_pair 0"
    using n sized_pair l by (rule cpuUpdate_skips_dead)
  then show ?thesis
    using n sized_pair l by (simp add: particle_at_def cpu_pair_def vec3_at_def)
qed

theorem cpuUpdate_lifetime_range_witness:
  "storage_sized cpu_pair 2 \<and> (1::nat) < 2
   \<and> 0 \<le> lifetimes cpu_pair ! 1 \<and> lifetimes cpu_pair ! 1 \<le> 1
   \<and> 0 \<le> fadeRates cpu_pair ! 1 * num_value u_plain ''deltaTime''
   \<and> 0 \<le> lifetimes (cpuUpdate no_noise cpu_pair u_plain tex2 2 features_plain) ! 1
   \<and> lifetimes (cpuUpdate no_noise cpu_pair u_plain tex2 2 features_plain) ! 1 \<le> 1"
proof -
  have n: "(1::nat) < 2" by simp
  have a: "0 \<le> lifetimes cpu_pair ! 1" and b: "lifetimes cpu_pair ! 1 \<le> 1"
    by (simp_all add: cpu_pair_def)
  have c: "0 \<le> fadeRates cpu_pair ! 1 * num_value u_plain ''deltaTime''"
    by (simp add: cpu_pair_def u_plain_def num_value_def)
  from cpuUpdate_lifetime_range [OF sized_pair n a b c, of no_noise tex2 features_plain]
  show ?thesis using sized_pair n a b c by blast
qed

theorem cpuUpdate_lifetime_range_counterexample:
  "storage_sized cpu_pair 2
   \<and> 0 \<le> lifetimes cpu_pair ! 1 \<and> lifetimes cpu_pair ! 1 \<le> 1
   \<and> num_value u_rewind ''deltaTime'' = - 1
   \<and> lifetimes (cpuUpdate no_noise cpu_pair u_rewind tex2 2 features_plain) ! 1 = 5 / 4
   \<and> \<not> lifetimes (cpuUpdate no_noise cpu_pair u_rewind tex2 2 features_plain) ! 1 \<le> 1"
  unfolding cpuUpdate_pair_rewind using sized_pair
  by (simp add: cpu_pair_def u_rewind_def num_value_def)

theorem cpuUpdate_bounce_witness:
  "storage_sized cpu_pair 2 \<and> (1::nat) < 2 \<and> 0 < lifetimes cpu_pair ! 1
   \<and> collisionEnabled (read_env u_plain features_plain cpu_pair)
   \<and> \<not> collisionDie (read_env u_plain features_plain cpu_pair)
   \<and> collisionBounce (read_env u_plain features_plain cpu_pair) = 1 / 2
   \<and> pre_collision no_noise (read_env u_plain features_plain cpu_pair) tex2 cpu_pair 1
       = ((2, - 3, 6), (2, - 4, 6))
   \<and> - 3 < collisionPlaneY (read_env u_plain features_plain cpu_pair)
   \<and> vec3_at (velocities (cpuUpdate no_noise cpu_pair u_plain tex2 2 features_plain)) 1
       = (1, 2, 3)
   \<and> vec3_at (positions (cpuUpdate no_noise cpu_pair u_plain tex2 2 features_plain)) 1
       = (2, 0, 6)"
proof -
  let ?e = "read_env u_plain features_plain cpu_pair"
  have n: "(1::nat) < 2" by simp
  have l: "0 < lifetimes cpu_pair ! 1" by (simp add: cpu_pair_def)
  have en: "collisionEnabled ?e" and nd: "\<not> collisionDie ?e"
    and bo: "collisionBounce ?e = 1 / 2" and fr: "collisionFriction ?e = 1 / 2"
    and pl: "collisionPlaneY ?e = 0" and d: "dt ?e = 1"
    unfolding env_plain by (simp_all add: env0_def)
  have below: "- 3 < collisionPlaneY ?e" unfolding pl by simp
  have fade: "lifetimes cpu_pair ! 1 - fadeRates cpu_pair ! 1 * dt ?e = 3 / 4"
    unfolding d by (simp add: cpu_pair_def)
  from cpuUpdate_bounce [OF sized_pair n l en nd pc_pair below]
  have "vec3_at (velocities (cpuUpdate no_noise cpu_pair u_plain tex2 2 features_plain)) 1
          = (1, 2, 3)
        \<and> vec3_at (positions (cpuUpdate no_noise cpu_pair u_plain tex2 2 features_plain)) 1
          = (2, 0, 6)"
    unfolding bo fr pl fade by simp
  then show ?thesis using sized_pair n l en nd bo pc_pair below by blast
qed


section \<open>Particle system: spawn ranges, overrides and automatic emission\<close>

lemma ring_step:
  fixes k C j n :: nat
  assumes "k < C" and "j < n" and "n \<le> C"
  shows "(k + j) mod C = (if k + j < C then k + j else k + j - C)"
proof (cases "k + j < C")
  case True
  then show ?thesis by simp
next
  case False
  have "k + j - C < C" using assms by arith
  then have "(k + j - C) mod C = k + j - C" by simp
  moreover have "(k + j) mod C = (k + j - C) mod C"
    using False by (simp add: le_mod_geq)
  ultimately show ?thesis using False by simp
qed

lemma ring_member:
  assumes "0 < C" and "k < C" and "0 < n" and "n \<le> C" and "i < C"
  shows "spawn_in_range k ((k + n) mod C) i \<longleftrightarrow> (\<exists>j<n. i = (k + j) mod C)"
proof -
  have e: "(k + n) mod C = (if k + n < C then k + n else k + n - C)"
  proof (cases "k + n < C")
    case True
    then show ?thesis by simp
  next
    case False
    have "k + n - C < C" using assms by arith
    then have "(k + n - C) mod C = k + n - C" by simp
    moreover have "(k + n) mod C = (k + n - C) mod C"
      using False by (simp add: le_mod_geq)
    ultimately show ?thesis using False by simp
  qed
  have range: "spawn_in_range k ((k + n) mod C) i \<longleftrightarrow> (k \<le> i \<and> i < k + n) \<or> i + C < k + n"
  proof (cases "k + n < C")
    case True
    then have "(k + n) mod C = k + n" using e by simp
    then show ?thesis unfolding spawn_in_range_def using True assms by simp
  next
    case False
    then have "(k + n) mod C = k + n - C" using e by simp
    then show ?thesis unfolding spawn_in_range_def using False assms by simp arith
  qed
  have img: "(\<exists>j<n. i = (k + j) mod C) \<longleftrightarrow> (k \<le> i \<and> i < k + n) \<or> i + C < k + n"
  proof
    assume "\<exists>j<n. i = (k + j) mod C"
    then obtain j where j: "j < n" and i: "i = (k + j) mod C" by blast
    have "i = (if k + j < C then k + j else k + j - C)"
      unfolding i using assms(2) j assms(4) by (rule ring_step)
    then show "(k \<le> i \<and> i < k + n) \<or> i + C < k + n"
      using j by (cases "k + j < C") simp_all
  next
    assume a: "(k \<le> i \<and> i < k + n) \<or> i + C < k + n"
    show "\<exists>j<n. i = (k + j) mod C"
    proof (cases "k \<le> i \<and> i < k + n")
      case True
      then have j: "i - k < n" by arith
      have "(k + (i - k)) mod C = i" using True assms(5) by simp
      then have "i = (k + (i - k)) mod C" by simp
      with j show ?thesis by blast
    next
      case False
      then have lt: "i + C < k + n" using a by blast
      then have j: "i + C - k < n" using assms(3) by arith
      have "k + (i + C - k) = i + C" using assms(2) by arith
      then have "(k + (i + C - k)) mod C = i" using assms(5) by simp
      then have "i = (k + (i + C - k)) mod C" by simp
      with j show ?thesis by blast
    qed
  qed
  show ?thesis using range img by blast
qed

lemma ring_slots_set:
  assumes "0 < C" and "k < C" and "0 < n" and "n \<le> C"
  shows "{i. i < C \<and> spawn_in_range k ((k + n) mod C) i} = (\<lambda>j. (k + j) mod C) ` {0..<n}"
proof (intro set_eqI iffI)
  fix i assume "i \<in> {i. i < C \<and> spawn_in_range k ((k + n) mod C) i}"
  then have i: "i < C" and r: "spawn_in_range k ((k + n) mod C) i" by simp_all
  from r obtain j where "j < n" and "i = (k + j) mod C"
    using ring_member [OF assms i] by blast
  then show "i \<in> (\<lambda>j. (k + j) mod C) ` {0..<n}" by simp
next
  fix i assume "i \<in> (\<lambda>j. (k + j) mod C) ` {0..<n}"
  then obtain j where j: "j < n" and ij: "i = (k + j) mod C" by auto
  have i: "i < C" unfolding ij using assms(1) by simp
  have "spawn_in_range k ((k + n) mod C) i"
    using ring_member [OF assms i] j ij by blast
  then show "i \<in> {i. i < C \<and> spawn_in_range k ((k + n) mod C) i}" using i by simp
qed


lemma ring_slots_inj:
  fixes k C n :: nat
  assumes "n \<le> C"
  shows "inj_on (\<lambda>j. (k + j) mod C) {0..<n}"
proof (rule inj_onI)
  have ordered: "a = b" if "a \<le> b" and "b < n" and "(k + a) mod C = (k + b) mod C"
    for a b :: nat
  proof -
    have "(k + b) mod C = (k + a) mod C" using that(3) by simp
    then have "C dvd (k + b) - (k + a)"
      using that(1) by (simp add: mod_eq_dvd_iff_nat)
    then have "C dvd b - a" by simp
    moreover have "b - a < C" using that(2) assms by simp
    ultimately have "b - a = 0" using nat_dvd_not_less by (cases "b - a = 0") auto
    then show ?thesis using that(1) by simp
  qed
  fix a b assume a: "a \<in> {0..<n}" and b: "b \<in> {0..<n}" and eq: "(k + a) mod C = (k + b) mod C"
  show "a = b"
  proof (cases "a \<le> b")
    case True
    have "b < n" using b by simp
    with True show ?thesis using eq by (rule ordered)
  next
    case False
    then have le: "b \<le> a" by simp
    have "a < n" using a by simp
    with le have "b = a" using eq [symmetric] by (rule ordered)
    then show ?thesis by simp
  qed
qed

lemma spawn_claimed_set:
  "set (filter (spawn_in_range a b) [0..<C]) = {i. i < C \<and> spawn_in_range a b i}"
  by auto

lemma ring_slots_claimed:
  assumes "0 < C" and "k < C" and "0 < n" and "n \<le> C"
  shows "set (filter (spawn_in_range k ((k + n) mod C)) [0..<C]) = set (requested_slots C k n)"
    and "length (filter (spawn_in_range k ((k + n) mod C)) [0..<C]) = n"
proof -
  let ?xs = "filter (spawn_in_range k ((k + n) mod C)) [0..<C]"
  show s: "set ?xs = set (requested_slots C k n)"
    unfolding spawn_claimed_set ring_slots_set [OF assms] requested_slots_def by simp
  have "distinct ?xs" by simp
  then have "length ?xs = card (set ?xs)" by (rule distinct_card [symmetric])
  also have "\<dots> = card ((\<lambda>j. (k + j) mod C) ` {0..<n})"
    unfolding s requested_slots_def by simp
  also have "\<dots> = n"
    using ring_slots_inj [OF assms(4), of k] by (simp add: card_image)
  finally show "length ?xs = n" .
qed



lemma spawn_uniforms_range:
  "nat \<lfloor>num_value (spawn_uniforms u x y z a b rnd) ''spawnIndexStart''\<rfloor> = a"
  "nat \<lfloor>num_value (spawn_uniforms u x y z a b rnd) ''spawnIndexEnd''\<rfloor> = b"
  by (simp_all add: spawn_uniforms_def num_value_def)

lemma spawn_prepare_fields:
  "nextIndex (fst (spawn_prepare rnd s x y z n ov)) = (nextIndex s + n) mod maxParticles s"
  "maxParticles (fst (spawn_prepare rnd s x y z n ov)) = maxParticles s"
  "emitAccumulator (fst (spawn_prepare rnd s x y z n ov)) = emitAccumulator s"
  "store (fst (spawn_prepare rnd s x y z n ov)) = store s"
  "spawn_claimed (uniforms (fst (spawn_prepare rnd s x y z n ov))) C
   = filter (spawn_in_range (nextIndex s) ((nextIndex s + n) mod maxParticles s)) [0..<C]"
  by (simp_all add: spawn_prepare_def Let_def spawn_claimed_def spawn_uniforms_range
      split: prod.split)

lemma spawn_fields:
  assumes "initialized s" and "renderer s"
  shows "nextIndex (fst (spawn pass rnd s x y z n ov)) = (nextIndex s + n) mod maxParticles s"
  using assms spawn_prepare_fields(1) [of rnd s x y z n ov]
  by (auto simp: spawn_def split: prod.split sum.split)

lemma spawn_keeps:
  "emitAccumulator (fst (spawn pass rnd s x y z n ov)) = emitAccumulator s"
  "maxParticles (fst (spawn pass rnd s x y z n ov)) = maxParticles s"
  using spawn_prepare_fields(2,3) [of rnd s x y z n ov]
  by (auto simp: spawn_def split: prod.split sum.split)


lemma spawn_in_range_full: "filter (spawn_in_range k k) [0..<C] = [0..<C]"
  by (auto simp: filter_id_conv spawn_in_range_def)

lemma spawn_runs_pass:
  assumes "initialized s" and "renderer s"
  shows "pass (store s) (uniforms (fst (spawn_prepare rnd s x y z n ov))) (maxParticles s) = Inr c
           \<Longrightarrow> store (fst (spawn pass rnd s x y z n ov)) = c
               \<and> snd (spawn pass rnd s x y z n ov) = None"
    and "pass (store s) (uniforms (fst (spawn_prepare rnd s x y z n ov))) (maxParticles s) = Inl err
           \<Longrightarrow> store (fst (spawn pass rnd s x y z n ov)) = store s
               \<and> snd (spawn pass rnd s x y z n ov) = Some err"
  using assms spawn_prepare_fields(2,4) [of rnd s x y z n ov]
  by (auto simp: spawn_def split: prod.splits sum.splits)

lemma spawn_prepare_range:
  "num_value (uniforms (fst (spawn_prepare rnd s x y z n ov))) ''spawnIndexStart''
     = real (nextIndex s)"
  "num_value (uniforms (fst (spawn_prepare rnd s x y z n ov))) ''spawnIndexEnd''
     = real ((nextIndex s + n) mod maxParticles s)"
  by (simp_all add: spawn_prepare_def Let_def spawn_uniforms_def num_value_def
      split: prod.split)

lemma slot_log_prepare:
  "spawn_claimed (uniforms (fst (spawn_prepare rnd (slot_log s) x y z n ov))) C
   = spawn_claimed (uniforms (fst (spawn_prepare rnd s x y z n ov))) C"
  unfolding spawn_prepare_fields(5) by (simp add: slot_log_def)

lemma spawn_slot_log:
  assumes "initialized s" and "renderer s"
  shows "store (fst (spawn claiming_pass rnd (slot_log s) x y z n ov))
         = spawn_claimed (uniforms (fst (spawn_prepare rnd s x y z n ov))) (maxParticles s)"
proof -
  have i: "initialized (slot_log s)" and r: "renderer (slot_log s)"
    and st: "store (slot_log s) = []" and c: "maxParticles (slot_log s) = maxParticles s"
    using assms by (simp_all add: slot_log_def)
  have run: "claiming_pass (store (slot_log s))
               (uniforms (fst (spawn_prepare rnd (slot_log s) x y z n ov)))
               (maxParticles (slot_log s))
             = Inr (spawn_claimed (uniforms (fst (spawn_prepare rnd s x y z n ov)))
                      (maxParticles s))"
    unfolding st c claiming_pass_def slot_log_prepare by simp
  from spawn_runs_pass(1) [of "slot_log s" claiming_pass rnd x y z n ov, OF i r run]
  show ?thesis by simp
qed

text \<open>
  C3. On a system of capacity \<open>C > 0\<close> with cursor \<open>k < C\<close>, a call of \<open>spawn\<close> for \<open>count\<close>
  particles with \<open>0 < count \<le> C\<close> advances \<open>nextIndex\<close> to \<open>(k + count) mod C\<close>, sets the
  range uniforms to start \<open>k\<close> and end \<open>(k + count) mod C\<close>, runs the spawn pass on the store
  with exactly these uniforms and keeps the store the pass returns (an exception of the
  pass leaves the call with the store as it was). With the pass that records the slots it
  claims, the call writes exactly the \<open>count\<close> slots \<open>k, k + 1, \<dots>\<close> taken modulo \<open>C\<close>, each
  once. For \<open>C = 10\<close>, \<open>k = 8\<close>, \<open>count = 5\<close> they are 8, 9, 0, 1, 2 and the cursor ends at 3.
\<close>

theorem spawn_claims_ring_range:
  assumes "initialized s" and "renderer s"
    and "0 < maxParticles s" and "nextIndex s < maxParticles s"
    and "0 < count" and "count \<le> maxParticles s"
  shows "nextIndex (fst (spawn pass rnd s x y z count ov))
           = (nextIndex s + count) mod maxParticles s
         \<and> num_value (uniforms (fst (spawn_prepare rnd s x y z count ov))) ''spawnIndexStart''
           = real (nextIndex s)
         \<and> num_value (uniforms (fst (spawn_prepare rnd s x y z count ov))) ''spawnIndexEnd''
           = real ((nextIndex s + count) mod maxParticles s)
         \<and> (\<forall>c. pass (store s) (uniforms (fst (spawn_prepare rnd s x y z count ov)))
                  (maxParticles s) = Inr c
               \<longrightarrow> store (fst (spawn pass rnd s x y z count ov)) = c
                   \<and> snd (spawn pass rnd s x y z count ov) = None)
         \<and> (\<forall>err. pass (store s) (uniforms (fst (spawn_prepare rnd s x y z count ov)))
                    (maxParticles s) = Inl err
               \<longrightarrow> store (fst (spawn pass rnd s x y z count ov)) = store s
                   \<and> snd (spawn pass rnd s x y z count ov) = Some err)
         \<and> store (fst (spawn claiming_pass rnd (slot_log s) x y z count ov))
           = spawn_claimed (uniforms (fst (spawn_prepare rnd s x y z count ov)))
               (maxParticles s)
         \<and> set (store (fst (spawn claiming_pass rnd (slot_log s) x y z count ov)))
           = set (requested_slots (maxParticles s) (nextIndex s) count)
         \<and> length (store (fst (spawn claiming_pass rnd (slot_log s) x y z count ov)))
           = count
         \<and> distinct (store (fst (spawn claiming_pass rnd (slot_log s) x y z count ov)))"
proof -
  let ?cl = "spawn_claimed (uniforms (fst (spawn_prepare rnd s x y z count ov)))
               (maxParticles s)"
  have log: "store (fst (spawn claiming_pass rnd (slot_log s) x y z count ov)) = ?cl"
    by (rule spawn_slot_log [OF assms(1,2)])
  have cl: "set ?cl = set (requested_slots (maxParticles s) (nextIndex s) count)"
    and len: "length ?cl = count"
    unfolding spawn_prepare_fields(5) using ring_slots_claimed [OF assms(3,4,5,6)]
    by simp_all
  have dis: "distinct ?cl" by (simp add: spawn_claimed_def)
  show ?thesis
    unfolding log
    using spawn_fields [OF assms(1,2), of pass rnd x y z count ov]
      spawn_prepare_range [of rnd s x y z count ov]
      spawn_runs_pass [OF assms(1,2), of pass rnd x y z count ov]
      cl len dis
    by simp
qed

text \<open>
  C4 (amended). A spawn of more particles than the capacity is accepted: \<open>spawn\<close> itself
  raises nothing, only the pass can throw. The call is the same as a spawn of
  \<open>count mod C\<close> particles: the cursor advances to \<open>(k + count) mod C\<close>, and the range handed
  to the pass claims \<open>count mod C\<close> slots, or every slot once when \<open>count\<close> is a multiple of
  \<open>C\<close>. The number of laps is not handed on, so the range does not wrap several times and
  no slot is written twice in the call.
\<close>

theorem spawn_over_capacity:
  assumes "initialized s" and "renderer s"
    and "0 < maxParticles s" and "nextIndex s < maxParticles s"
    and "maxParticles s < count"
  shows "spawn pass rnd s x y z count ov
           = spawn pass rnd s x y z (count mod maxParticles s) ov
         \<and> (snd (spawn pass rnd s x y z count ov) \<noteq> None \<longrightarrow>
              (\<exists>err. pass (store s) (uniforms (fst (spawn_prepare rnd s x y z count ov)))
                       (maxParticles s) = Inl err))
         \<and> nextIndex (fst (spawn pass rnd s x y z count ov))
           = (nextIndex s + count) mod maxParticles s
         \<and> set (spawn_claimed (uniforms (fst (spawn_prepare rnd s x y z count ov)))
                  (maxParticles s))
           = (if count mod maxParticles s = 0 then {0..<maxParticles s}
              else set (requested_slots (maxParticles s) (nextIndex s)
                         (count mod maxParticles s)))
         \<and> length (spawn_claimed (uniforms (fst (spawn_prepare rnd s x y z count ov)))
                     (maxParticles s))
           = (if count mod maxParticles s = 0 then maxParticles s
              else count mod maxParticles s)"
proof -
  let ?C = "maxParticles s" and ?k = "nextIndex s"
  have e: "(?k + count) mod ?C = (?k + count mod ?C) mod ?C"
    by (simp add: mod_add_right_eq)
  have prep: "spawn_prepare rnd s x y z count ov
              = spawn_prepare rnd s x y z (count mod ?C) ov"
    by (simp add: spawn_prepare_def Let_def e)
  have one: "spawn pass rnd s x y z count ov = spawn pass rnd s x y z (count mod ?C) ov"
    by (simp add: spawn_def prep)
  have two: "snd (spawn pass rnd s x y z count ov) \<noteq> None \<longrightarrow>
              (\<exists>err. pass (store s) (uniforms (fst (spawn_prepare rnd s x y z count ov))) ?C
                     = Inl err)"
    using spawn_prepare_fields(2,4) [of rnd s x y z count ov]
    by (auto simp: spawn_def split: prod.splits sum.splits if_splits)
  have three: "nextIndex (fst (spawn pass rnd s x y z count ov)) = (?k + count) mod ?C"
    by (rule spawn_fields [OF assms(1,2)])
  have four: "set (filter (spawn_in_range ?k ((?k + count) mod ?C)) [0..<?C])
           = (if count mod ?C = 0 then {0..<?C}
              else set (requested_slots ?C ?k (count mod ?C)))
         \<and> length (filter (spawn_in_range ?k ((?k + count) mod ?C)) [0..<?C])
           = (if count mod ?C = 0 then ?C else count mod ?C)"
  proof (cases "count mod ?C = 0")
    case True
    then have "(?k + count) mod ?C = ?k" using e assms(4) by simp
    then show ?thesis using True by (simp add: spawn_in_range_full)
  next
    case False
    then have pos: "0 < count mod ?C" by simp
    have le: "count mod ?C \<le> ?C" using assms(3) by (simp add: less_imp_le)
    show ?thesis
      unfolding e using False ring_slots_claimed [OF assms(3,4) pos le] by simp
  qed
  show ?thesis
    unfolding spawn_prepare_fields(5) using one two three four by blast
qed

text \<open>
  C5 (amended). When a spawn call with overrides returns normally, every overridden
  uniform has its prior value again at the end of the call. When the spawn pass throws,
  the exception leaves \<open>spawn\<close> before the restore action is reached: the uniforms stay as
  the pass saw them, and every overridden uniform other than the four that \<open>spawn\<close> sets
  itself keeps the overriding value.
\<close>

theorem spawn_restores_after_pass:
  "(snd (spawn pass rnd s x y z count (Some ov)) = None \<longrightarrow>
      (\<forall>k. ov k \<noteq> None \<longrightarrow>
         uniforms (fst (spawn pass rnd s x y z count (Some ov))) k = uniforms s k))
   \<and> (snd (spawn pass rnd s x y z count (Some ov)) \<noteq> None \<longrightarrow>
        uniforms (fst (spawn pass rnd s x y z count (Some ov)))
          = uniforms (fst (spawn_prepare rnd s x y z count (Some ov)))
        \<and> (\<forall>k. ov k \<noteq> None
               \<and> k \<notin> {''spawnPosition'', ''spawnIndexStart'', ''spawnIndexEnd'', ''spawnSeed''}
             \<longrightarrow> uniforms (fst (spawn pass rnd s x y z count (Some ov))) k = ov k))"
  by (auto simp: spawn_def spawn_prepare_def applySpawnOverrides_def spawn_uniforms_def
      Let_def map_add_def split: sum.splits option.splits)

text \<open>
  C10. With a positive delay and emission on, one call of \<open>autoEmit\<close> adds \<open>delta\<close> to the
  accumulator and issues at most one spawn: none while the accumulator stays below the
  delay, otherwise exactly one call of \<open>spawn\<close> on the system whose accumulator has gone
  down by exactly the delay. The excess stays in the accumulator (it is still at least the
  delay when accumulator plus delta reached twice the delay), the cursor advances by one
  \<open>emitCount\<close> only, and the store is the result of at most one run of the spawn pass.
\<close>

theorem autoEmit_single_spawn:
  assumes "0 < delay s" and "isEmitting s"
  shows "(emitAccumulator s + delta < delay s \<longrightarrow>
            autoEmit pass rnd s delta = (s\<lparr> emitAccumulator := emitAccumulator s + delta \<rparr>, None))
         \<and> (delay s \<le> emitAccumulator s + delta \<longrightarrow>
              autoEmit pass rnd s delta
                = spawn pass rnd (s\<lparr> emitAccumulator := emitAccumulator s + delta - delay s \<rparr>)
                    (fst (position s)) (fst (snd (position s))) (snd (snd (position s)))
                    (emitCount s) None)
         \<and> emitAccumulator (fst (autoEmit pass rnd s delta))
             = (if delay s \<le> emitAccumulator s + delta
                then emitAccumulator s + delta - delay s else emitAccumulator s + delta)
         \<and> (2 * delay s \<le> emitAccumulator s + delta \<longrightarrow>
              delay s \<le> emitAccumulator (fst (autoEmit pass rnd s delta)))
         \<and> (initialized s \<and> renderer s \<and> 0 < maxParticles s
              \<and> delay s \<le> emitAccumulator s + delta \<longrightarrow>
              nextIndex (fst (autoEmit pass rnd s delta))
                = (nextIndex s + emitCount s) mod maxParticles s)
         \<and> (store (fst (autoEmit pass rnd s delta)) = store s
              \<or> (\<exists>u. pass (store s) u (maxParticles s)
                        = Inr (store (fst (autoEmit pass rnd s delta)))))"
proof -
  obtain px py pz where p: "position s = (px, py, pz)" by (cases "position s") auto
  let ?s2 = "s\<lparr> emitAccumulator := emitAccumulator s + delta - delay s \<rparr>"
  have idle: "autoEmit pass rnd s delta = (s\<lparr> emitAccumulator := emitAccumulator s + delta \<rparr>, None)"
    if "emitAccumulator s + delta < delay s"
    using that assms by (simp add: autoEmit_def p Let_def)
  have fire: "autoEmit pass rnd s delta = spawn pass rnd ?s2 px py pz (emitCount s) None"
    if "delay s \<le> emitAccumulator s + delta"
    using that assms by (simp add: autoEmit_def p Let_def)
  have acc: "emitAccumulator (fst (autoEmit pass rnd s delta))
             = (if delay s \<le> emitAccumulator s + delta
                then emitAccumulator s + delta - delay s else emitAccumulator s + delta)"
  proof (cases "delay s \<le> emitAccumulator s + delta")
    case True
    then show ?thesis by (simp add: fire spawn_keeps(1))
  next
    case False
    then show ?thesis by (simp add: idle)
  qed
  have cursor: "nextIndex (fst (autoEmit pass rnd s delta))
                = (nextIndex s + emitCount s) mod maxParticles s"
    if "initialized s" and "renderer s" and "delay s \<le> emitAccumulator s + delta"
    using that spawn_fields [of ?s2 pass rnd px py pz "emitCount s" None] by (simp add: fire)
  have once: "store (fst (autoEmit pass rnd s delta)) = store s
              \<or> (\<exists>u. pass (store s) u (maxParticles s)
                        = Inr (store (fst (autoEmit pass rnd s delta))))"
  proof (cases "delay s \<le> emitAccumulator s + delta")
    case True
    show ?thesis
      unfolding fire [OF True]
      using spawn_prepare_fields(2,4) [of rnd ?s2 px py pz "emitCount s" None]
      by (auto simp: spawn_def split: prod.splits sum.splits)
  next
    case False
    then show ?thesis by (simp add: idle)
  qed
  have spill: "delay s \<le> emitAccumulator (fst (autoEmit pass rnd s delta))"
    if "2 * delay s \<le> emitAccumulator s + delta"
    unfolding acc using that assms(1) by simp
  show ?thesis
    using idle fire acc cursor once spill unfolding p by simp
qed

lemma upt10: "[0..<10] = [0, 1, 2, 3, 4, 5, 6, 7, 8, 9]"
  by (simp add: upt_rec)

lemma claimed_sys10:
  "spawn_claimed (uniforms (fst (spawn_prepare 0 sys10 0 0 0 5 None))) 10 = [0, 1, 2, 8, 9]"
  unfolding spawn_prepare_fields(5) upt10
  by (simp add: sys10_def spawn_in_range_def)

lemma claimed_sys10_start:
  "spawn_claimed (uniforms (fst (spawn_prepare 0 sys10_start 0 0 0 15 None))) 10
   = [0, 1, 2, 3, 4]"
  unfolding spawn_prepare_fields(5) upt10
  by (simp add: sys10_start_def sys10_def spawn_in_range_def)

lemma requested_8_5: "requested_slots 10 8 5 = [8, 9, 0, 1, 2]"
  by (simp add: requested_slots_def upt_rec)

lemma requested_0_15: "requested_slots 10 0 15 = [0, 1, 2, 3, 4, 5, 6, 7, 8, 9, 0, 1, 2, 3, 4]"
  by (simp add: requested_slots_def upt_rec)

theorem spawn_claims_ring_range_witness:
  "initialized sys10 \<and> renderer sys10 \<and> maxParticles sys10 = 10 \<and> nextIndex sys10 = 8
   \<and> (0::nat) < 5 \<and> 5 \<le> maxParticles sys10
   \<and> nextIndex (fst (spawn counting_pass 0 sys10 0 0 0 5 None)) = 3
   \<and> num_value (uniforms (fst (spawn_prepare 0 sys10 0 0 0 5 None))) ''spawnIndexStart'' = 8
   \<and> num_value (uniforms (fst (spawn_prepare 0 sys10 0 0 0 5 None))) ''spawnIndexEnd'' = 3
   \<and> counting_pass (store sys10) (uniforms (fst (spawn_prepare 0 sys10 0 0 0 5 None)))
         (maxParticles sys10) = Inr 1
   \<and> store (fst (spawn counting_pass 0 sys10 0 0 0 5 None)) = 1
   \<and> failing_pass (store sys10) (uniforms (fst (spawn_prepare 0 sys10 0 0 0 5 None)))
         (maxParticles sys10) = Inl SpawnPassFailed
   \<and> snd (spawn failing_pass 0 sys10 0 0 0 5 None) = Some SpawnPassFailed
   \<and> store (fst (spawn claiming_pass 0 (slot_log sys10) 0 0 0 5 None)) = [0, 1, 2, 8, 9]
   \<and> set (store (fst (spawn claiming_pass 0 (slot_log sys10) 0 0 0 5 None))) = {8, 9, 0, 1, 2}
   \<and> length (store (fst (spawn claiming_pass 0 (slot_log sys10) 0 0 0 5 None))) = 5"
proof -
  have i: "initialized sys10" and r: "renderer sys10" and c: "maxParticles sys10 = 10"
    and k: "nextIndex sys10 = 8" and s0: "store sys10 = 0"
    by (simp_all add: sys10_def)
  have c0: "0 < maxParticles sys10" and kc: "nextIndex sys10 < maxParticles sys10"
    and n0: "(0::nat) < 5" and nc: "5 \<le> maxParticles sys10"
    unfolding c k by simp_all
  have ran: "counting_pass (store sys10) (uniforms (fst (spawn_prepare 0 sys10 0 0 0 5 None)))
               (maxParticles sys10) = Inr 1"
    unfolding s0 by (simp add: counting_pass_def)
  have thrown: "failing_pass (store sys10) (uniforms (fst (spawn_prepare 0 sys10 0 0 0 5 None)))
               (maxParticles sys10) = Inl SpawnPassFailed"
    by (simp add: failing_pass_def)
  note t = spawn_claims_ring_range [OF i r c0 kc n0 nc, of counting_pass 0 0 0 0 None]
  note t' = spawn_claims_ring_range [OF i r c0 kc n0 nc, of failing_pass 0 0 0 0 None]
  from t have "nextIndex (fst (spawn counting_pass 0 sys10 0 0 0 5 None))
               = (nextIndex sys10 + 5) mod maxParticles sys10"
    by (rule conjunct1)
  then have cur: "nextIndex (fst (spawn counting_pass 0 sys10 0 0 0 5 None)) = 3"
    unfolding c k by simp
  from t have "num_value (uniforms (fst (spawn_prepare 0 sys10 0 0 0 5 None))) ''spawnIndexStart''
               = real (nextIndex sys10)"
    by blast
  then have st: "num_value (uniforms (fst (spawn_prepare 0 sys10 0 0 0 5 None)))
                   ''spawnIndexStart'' = 8"
    unfolding k by simp
  from t have "num_value (uniforms (fst (spawn_prepare 0 sys10 0 0 0 5 None))) ''spawnIndexEnd''
               = real ((nextIndex sys10 + 5) mod maxParticles sys10)"
    by blast
  then have en: "num_value (uniforms (fst (spawn_prepare 0 sys10 0 0 0 5 None)))
                   ''spawnIndexEnd'' = 3"
    unfolding c k by simp
  from t ran have kept: "store (fst (spawn counting_pass 0 sys10 0 0 0 5 None)) = 1"
    by blast
  from t' thrown have exc: "snd (spawn failing_pass 0 sys10 0 0 0 5 None) = Some SpawnPassFailed"
    by blast
  from t have "store (fst (spawn claiming_pass 0 (slot_log sys10) 0 0 0 5 None))
               = spawn_claimed (uniforms (fst (spawn_prepare 0 sys10 0 0 0 5 None)))
                   (maxParticles sys10)"
    by blast
  then have log: "store (fst (spawn claiming_pass 0 (slot_log sys10) 0 0 0 5 None))
                  = [0, 1, 2, 8, 9]"
    unfolding c claimed_sys10 .
  from t have "set (store (fst (spawn claiming_pass 0 (slot_log sys10) 0 0 0 5 None)))
               = set (requested_slots (maxParticles sys10) (nextIndex sys10) 5)"
    by blast
  then have slots: "set (store (fst (spawn claiming_pass 0 (slot_log sys10) 0 0 0 5 None)))
                    = {8, 9, 0, 1, 2}"
    unfolding c k requested_8_5 by simp
  from t have len: "length (store (fst (spawn claiming_pass 0 (slot_log sys10) 0 0 0 5 None))) = 5"
    by blast
  show ?thesis
    by (intro conjI i r c k n0 nc cur st en ran kept thrown exc log slots len)
qed

theorem spawn_over_capacity_witness:
  "initialized sys10_start \<and> renderer sys10_start \<and> maxParticles sys10_start = 10
   \<and> nextIndex sys10_start = 0 \<and> maxParticles sys10_start < 15
   \<and> spawn counting_pass 0 sys10_start 0 0 0 15 None
       = spawn counting_pass 0 sys10_start 0 0 0 5 None
   \<and> snd (spawn counting_pass 0 sys10_start 0 0 0 15 None) = None
   \<and> nextIndex (fst (spawn counting_pass 0 sys10_start 0 0 0 15 None)) = 5
   \<and> length (spawn_claimed (uniforms (fst (spawn_prepare 0 sys10_start 0 0 0 15 None))) 10)
       = 5
   \<and> snd (spawn failing_pass 0 sys10_start 0 0 0 15 None) \<noteq> None
   \<and> (\<exists>err. failing_pass (store sys10_start)
                (uniforms (fst (spawn_prepare 0 sys10_start 0 0 0 15 None)))
                (maxParticles sys10_start) = Inl err)"
proof -
  have i: "initialized sys10_start" and r: "renderer sys10_start"
    and c: "maxParticles sys10_start = 10" and k: "nextIndex sys10_start = 0"
    by (simp_all add: sys10_start_def sys10_def)
  have c0: "0 < maxParticles sys10_start"
    and kc: "nextIndex sys10_start < maxParticles sys10_start"
    and big: "maxParticles sys10_start < 15"
    unfolding c k by simp_all
  have ok: "snd (spawn counting_pass 0 sys10_start 0 0 0 15 None) = None"
    by (simp add: spawn_def spawn_prepare_def applySpawnOverrides_def counting_pass_def
        sys10_start_def sys10_def Let_def)
  note t = spawn_over_capacity [OF i r c0 kc big, of counting_pass 0 0 0 0 None]
  from t have "spawn counting_pass 0 sys10_start 0 0 0 15 None
          = spawn counting_pass 0 sys10_start 0 0 0 (15 mod maxParticles sys10_start) None"
    by blast
  then have eq: "spawn counting_pass 0 sys10_start 0 0 0 15 None
          = spawn counting_pass 0 sys10_start 0 0 0 5 None"
    unfolding c by simp
  from t have "nextIndex (fst (spawn counting_pass 0 sys10_start 0 0 0 15 None))
          = (nextIndex sys10_start + 15) mod maxParticles sys10_start"
    by blast
  then have cur: "nextIndex (fst (spawn counting_pass 0 sys10_start 0 0 0 15 None)) = 5"
    unfolding c k by simp
  from t have "length (spawn_claimed (uniforms (fst (spawn_prepare 0 sys10_start 0 0 0 15 None)))
                  (maxParticles sys10_start))
          = (if 15 mod maxParticles sys10_start = 0 then maxParticles sys10_start
             else 15 mod maxParticles sys10_start)"
    by blast
  then have len: "length (spawn_claimed
            (uniforms (fst (spawn_prepare 0 sys10_start 0 0 0 15 None))) 10) = 5"
    unfolding c by simp
  have bad: "snd (spawn failing_pass 0 sys10_start 0 0 0 15 None) \<noteq> None"
    by (simp add: spawn_def spawn_prepare_def applySpawnOverrides_def failing_pass_def
        sys10_start_def sys10_def Let_def)
  from spawn_over_capacity [OF i r c0 kc big, of failing_pass 0 0 0 0 None] bad
  have thrown: "\<exists>err. failing_pass (store sys10_start)
                (uniforms (fst (spawn_prepare 0 sys10_start 0 0 0 15 None)))
                (maxParticles sys10_start) = Inl err"
    by blast
  show ?thesis using i r c k ok eq cur len bad thrown by simp
qed

theorem spawn_over_capacity_counterexample:
  "initialized sys10_start \<and> renderer sys10_start \<and> maxParticles sys10_start = 10
   \<and> nextIndex sys10_start = 0
   \<and> requested_slots 10 0 15 ! 5 = 5
   \<and> spawn_claimed (uniforms (fst (spawn_prepare 0 sys10_start 0 0 0 15 None))) 10
       = [0, 1, 2, 3, 4]
   \<and> 5 \<notin> set (spawn_claimed (uniforms (fst (spawn_prepare 0 sys10_start 0 0 0 15 None))) 10)
   \<and> \<not> set (requested_slots 10 0 15)
         \<subseteq> set (spawn_claimed (uniforms (fst (spawn_prepare 0 sys10_start 0 0 0 15 None))) 10)
   \<and> spawn_prepare 0 sys10_start 0 0 0 15 None = spawn_prepare 0 sys10_start 0 0 0 5 None"
  unfolding claimed_sys10_start requested_0_15
  by (simp add: sys10_start_def sys10_def spawn_prepare_def Let_def)

theorem spawn_restores_after_pass_witness:
  "snd (spawn counting_pass 0 sys10 0 0 0 5 (Some ov_intensity)) = None
   \<and> ov_intensity ''intensity'' \<noteq> None
   \<and> ''intensity'' \<notin> {''spawnPosition'', ''spawnIndexStart'', ''spawnIndexEnd'', ''spawnSeed''}
   \<and> uniforms sys10 ''intensity'' = Some (Num 1)
   \<and> uniforms (fst (spawn counting_pass 0 sys10 0 0 0 5 (Some ov_intensity))) ''intensity''
       = Some (Num 1)
   \<and> snd (spawn failing_pass 0 sys10 0 0 0 5 (Some ov_intensity)) \<noteq> None
   \<and> uniforms (fst (spawn failing_pass 0 sys10 0 0 0 5 (Some ov_intensity))) ''intensity''
       = Some (Num 7)"
proof -
  have ok: "snd (spawn counting_pass 0 sys10 0 0 0 5 (Some ov_intensity)) = None"
    by (simp add: spawn_def spawn_prepare_def applySpawnOverrides_def counting_pass_def
        sys10_def Let_def)
  have bad: "snd (spawn failing_pass 0 sys10 0 0 0 5 (Some ov_intensity)) \<noteq> None"
    by (simp add: spawn_def spawn_prepare_def applySpawnOverrides_def failing_pass_def
        sys10_def Let_def)
  have key: "ov_intensity ''intensity'' \<noteq> None" by (simp add: ov_intensity_def)
  have val: "ov_intensity ''intensity'' = Some (Num 7)" by (simp add: ov_intensity_def)
  have other: "''intensity''
                 \<notin> {''spawnPosition'', ''spawnIndexStart'', ''spawnIndexEnd'', ''spawnSeed''}"
    by simp
  have before: "uniforms sys10 ''intensity'' = Some (Num 1)" by (simp add: sys10_def)
  note t0 = spawn_restores_after_pass [of counting_pass 0 sys10 0 0 0 5 ov_intensity]
  have "\<forall>k. ov_intensity k \<noteq> None \<longrightarrow>
          uniforms (fst (spawn counting_pass 0 sys10 0 0 0 5 (Some ov_intensity))) k
            = uniforms sys10 k"
    by (rule mp [OF conjunct1 [OF t0] ok])
  then have "ov_intensity ''intensity'' \<noteq> None \<longrightarrow>
          uniforms (fst (spawn counting_pass 0 sys10 0 0 0 5 (Some ov_intensity))) ''intensity''
            = uniforms sys10 ''intensity''"
    by (rule spec)
  then have a: "uniforms (fst (spawn counting_pass 0 sys10 0 0 0 5 (Some ov_intensity)))
                  ''intensity''
                = uniforms sys10 ''intensity''"
    using key by (rule mp)
  note t = spawn_restores_after_pass [of failing_pass 0 sys10 0 0 0 5 ov_intensity]
  have "\<forall>k. ov_intensity k \<noteq> None
             \<and> k \<notin> {''spawnPosition'', ''spawnIndexStart'', ''spawnIndexEnd'', ''spawnSeed''}
           \<longrightarrow> uniforms (fst (spawn failing_pass 0 sys10 0 0 0 5 (Some ov_intensity))) k
               = ov_intensity k"
    by (rule conjunct2 [OF mp [OF conjunct2 [OF t] bad]])
  then have "ov_intensity ''intensity'' \<noteq> None
             \<and> ''intensity''
                 \<notin> {''spawnPosition'', ''spawnIndexStart'', ''spawnIndexEnd'', ''spawnSeed''}
           \<longrightarrow> uniforms (fst (spawn failing_pass 0 sys10 0 0 0 5 (Some ov_intensity)))
                 ''intensity''
               = ov_intensity ''intensity''"
    by (rule spec)
  then have b: "uniforms (fst (spawn failing_pass 0 sys10 0 0 0 5 (Some ov_intensity)))
                  ''intensity''
                = ov_intensity ''intensity''"
    using key other by (rule mp [OF _ conjI])
  have a': "uniforms (fst (spawn counting_pass 0 sys10 0 0 0 5 (Some ov_intensity)))
              ''intensity'' = Some (Num 1)"
    using a before by (rule trans)
  have b': "uniforms (fst (spawn failing_pass 0 sys10 0 0 0 5 (Some ov_intensity)))
              ''intensity'' = Some (Num 7)"
    using b val by (rule trans)
  show ?thesis
    by (intro conjI ok key other before a' bad b')
qed

theorem spawn_restores_after_pass_counterexample:
  "initialized sys10 \<and> renderer sys10
   \<and> uniforms sys10 ''intensity'' = Some (Num 1)
   \<and> ov_intensity ''intensity'' = Some (Num 7)
   \<and> snd (spawn failing_pass 0 sys10 0 0 0 5 (Some ov_intensity)) = Some SpawnPassFailed
   \<and> uniforms (fst (spawn failing_pass 0 sys10 0 0 0 5 (Some ov_intensity))) ''intensity''
       = Some (Num 7)
   \<and> uniforms (fst (spawn failing_pass 0 sys10 0 0 0 5 (Some ov_intensity))) ''intensity''
       \<noteq> uniforms sys10 ''intensity''"
  by (simp add: spawn_def spawn_prepare_def applySpawnOverrides_def failing_pass_def
      spawn_uniforms_def sys10_def ov_intensity_def Let_def)

theorem autoEmit_single_spawn_witness:
  "0 < delay sys10 \<and> isEmitting sys10 \<and> delay sys10 = 2 \<and> emitAccumulator sys10 = 0
   \<and> 2 * delay sys10 \<le> emitAccumulator sys10 + 5
   \<and> initialized sys10 \<and> renderer sys10 \<and> 0 < maxParticles sys10
   \<and> emitAccumulator (fst (autoEmit counting_pass 0 sys10 5)) = 3
   \<and> nextIndex (fst (autoEmit counting_pass 0 sys10 5)) = 3
   \<and> store sys10 = 0
   \<and> store (fst (autoEmit counting_pass 0 sys10 5)) = 1
   \<and> emitAccumulator sys10 + 1 < delay sys10
   \<and> autoEmit counting_pass 0 sys10 1 = (sys10\<lparr> emitAccumulator := 1 \<rparr>, None)"
proof -
  have d: "0 < delay sys10" and e: "isEmitting sys10" and d2: "delay sys10 = 2"
    and a0: "emitAccumulator sys10 = 0" and i: "initialized sys10" and r: "renderer sys10"
    and k: "nextIndex sys10 = 8" and c: "maxParticles sys10 = 10" and n: "emitCount sys10 = 5"
    and s0: "store sys10 = 0"
    by (simp_all add: sys10_def)
  have g: "delay sys10 \<le> emitAccumulator sys10 + 5" unfolding d2 a0 by simp
  note t = autoEmit_single_spawn [OF d e, of 5 counting_pass 0]
  from t have "emitAccumulator (fst (autoEmit counting_pass 0 sys10 5))
      = (if delay sys10 \<le> emitAccumulator sys10 + 5
         then emitAccumulator sys10 + 5 - delay sys10 else emitAccumulator sys10 + 5)"
    by blast
  then have acc: "emitAccumulator (fst (autoEmit counting_pass 0 sys10 5)) = 3"
    unfolding d2 a0 by simp
  have c0: "0 < maxParticles sys10" unfolding c by simp
  from t i r c0 g have "nextIndex (fst (autoEmit counting_pass 0 sys10 5))
      = (nextIndex sys10 + emitCount sys10) mod maxParticles sys10"
    by blast
  then have cur: "nextIndex (fst (autoEmit counting_pass 0 sys10 5)) = 3"
    unfolding k c n by simp
  have st: "store (fst (autoEmit counting_pass 0 sys10 5)) = 1"
    by (simp add: autoEmit_def spawn_def spawn_prepare_def applySpawnOverrides_def
        counting_pass_def sys10_def Let_def)
  have low: "emitAccumulator sys10 + 1 < delay sys10" unfolding d2 a0 by simp
  from autoEmit_single_spawn [OF d e, of 1 counting_pass 0] low
  have "autoEmit counting_pass 0 sys10 1
        = (sys10\<lparr> emitAccumulator := emitAccumulator sys10 + 1 \<rparr>, None)"
    by blast
  then have idle: "autoEmit counting_pass 0 sys10 1 = (sys10\<lparr> emitAccumulator := 1 \<rparr>, None)"
    unfolding a0 by simp
  show ?thesis using d e d2 a0 i r c0 acc cur s0 st low idle by simp
qed

end
